theory Spec2Isabelle
  imports Complex_Main
begin

section \<open>Data model of AutonomousDrivingSimulation.jsx\<close>

text \<open>
  JavaScript numbers are modelled as mathematical reals (\<open>Math.sin\<close>, \<open>Math.cos\<close> and
  \<open>Math.sqrt\<close> as \<open>sin\<close>, \<open>cos\<close> and \<open>sqrt\<close>); the rounding of IEEE doubles is not
  modelled.  The one non-real value the simulation stores, \<open>Infinity\<close>, has a constructor
  of its own.
\<close>

datatype jsnum = Finite real | Infinity

text \<open>The comparison \<open>a < b\<close> of a finite number with a possibly infinite one.\<close>

fun less_jsnum :: "real \<Rightarrow> jsnum \<Rightarrow> bool" where
  "less_jsnum a (Finite b) = (a < b)"
| "less_jsnum a Infinity = True"

text \<open>\<open>THREE.Vector3\<close> and \<open>THREE.Quaternion\<close>.\<close>

record vec3 =
  x3 :: real
  y3 :: real
  z3 :: real

record quaternion =
  qx :: real
  qy :: real
  qz :: real
  qw :: real

text \<open>The \<open>{ x, z }\<close> object stored as the position of a road curve.\<close>

record point =
  px :: real
  pz :: real

text \<open>An entry of \<open>simulation.roadCurves\<close>.\<close>

record curve =
  position :: point
  angle :: real
  curvature :: real

text \<open>
  A \<open>THREE.Group\<close> (the car, an obstacle), reduced to what the simulation reads and
  writes: its position and its rotation about the vertical axis.
\<close>

record object3d =
  position3 :: vec3
  rotation_y :: real

text \<open>
  \<open>simulation.sensors\<close>: each sensor is \<open>null\<close> or a mesh attached to the car, kept here as
  its position in the frame of the car.
\<close>

record sensors =
  front :: "vec3 option"
  left :: "vec3 option"
  right :: "vec3 option"

text \<open>\<open>simulation.sensorReadings\<close>.\<close>

record readings =
  frontReading :: jsnum
  leftReading :: jsnum
  rightReading :: jsnum

record ray =
  origin :: vec3
  direction :: vec3

text \<open>
  The state of the component: the fields of \<open>simulationRef.current\<close> that the driving
  loop uses, the React state (\<open>isSimulationRunning\<close>, \<open>laneKeepingActive\<close>,
  \<open>adaptiveCruiseActive\<close>, and the displayed \<open>speed\<close> and \<open>distance\<close>, here \<open>speedState\<close>
  and \<open>distanceState\<close>), and the source of \<open>Math.random()\<close>: the sequence \<open>random\<close> of
  its results and the number \<open>randomCalls\<close> of calls made so far.  The scene graph, the
  camera, the renderer and the debug markers are presentation and are left out.
\<close>

record state =
  car :: "object3d option"
  roadLength :: real
  roadWidth :: real
  laneWidth :: real
  roadCurves :: "curve list"
  carSpeed :: real
  targetSpeed :: real
  carPosition :: vec3
  carRotation :: real
  obstacles :: "object3d list"
  sensors :: sensors
  sensorReadings :: readings
  distance :: real
  initialized :: bool
  isSimulationRunning :: bool
  laneKeepingActive :: bool
  adaptiveCruiseActive :: bool
  speedState :: int
  distanceState :: int
  random :: "nat \<Rightarrow> real"
  randomCalls :: nat

datatype error = TypeError

section \<open>The parts of three.js that the driving loop calls\<close>

text \<open>\<open>Quaternion.setFromAxisAngle(axis, angle)\<close>.\<close>

definition setFromAxisAngle :: "vec3 \<Rightarrow> real \<Rightarrow> quaternion" where
  "setFromAxisAngle axis a =
     (let halfAngle = a / 2; s = sin halfAngle
      in \<lparr>qx = x3 axis * s, qy = y3 axis * s, qz = z3 axis * s, qw = cos halfAngle\<rparr>)"

text \<open>\<open>Vector3.applyQuaternion(q)\<close>.\<close>

definition applyQuaternion :: "vec3 \<Rightarrow> quaternion \<Rightarrow> vec3" where
  "applyQuaternion v q =
     (let tx = 2 * (qy q * z3 v - qz q * y3 v);
          ty = 2 * (qz q * x3 v - qx q * z3 v);
          tz = 2 * (qx q * y3 v - qy q * x3 v)
      in \<lparr>x3 = x3 v + qw q * tx + qy q * tz - qz q * ty,
          y3 = y3 v + qw q * ty + qz q * tx - qx q * tz,
          z3 = z3 v + qw q * tz + qx q * ty - qy q * tx\<rparr>)"

text \<open>\<open>Vector3.applyAxisAngle(axis, angle)\<close>.\<close>

definition applyAxisAngle :: "vec3 \<Rightarrow> vec3 \<Rightarrow> real \<Rightarrow> vec3" where
  "applyAxisAngle v axis a = applyQuaternion v (setFromAxisAngle axis a)"

text \<open>\<open>Vector3.normalize()\<close>: division by \<open>length() || 1\<close>.\<close>

definition normalize :: "vec3 \<Rightarrow> vec3" where
  "normalize v =
     (let l = sqrt (x3 v * x3 v + y3 v * y3 v + z3 v * z3 v);
          d = (if l = 0 then 1 else l)
      in \<lparr>x3 = x3 v / d, y3 = y3 v / d, z3 = z3 v / d\<rparr>)"

text \<open>
  \<open>object.quaternion\<close> of a group whose Euler rotation is \<open>(0, rotation.y, 0)\<close>: the
  rotation about the vertical axis.
\<close>

definition quaternion_of :: "object3d \<Rightarrow> quaternion" where
  "quaternion_of ob = setFromAxisAngle \<lparr>x3 = 0, y3 = 1, z3 = 0\<rparr> (rotation_y ob)"

text \<open>
  \<open>sensor.getWorldPosition(target)\<close> for a sensor at \<open>local\<close> in the frame of the car: the
  car is a child of the scene and is neither scaled nor tilted.
\<close>

definition getWorldPosition :: "object3d \<Rightarrow> vec3 \<Rightarrow> vec3" where
  "getWorldPosition parent local =
     (let r = applyQuaternion local (quaternion_of parent)
      in \<lparr>x3 = x3 (position3 parent) + x3 r,
          y3 = y3 (position3 parent) + y3 r,
          z3 = z3 (position3 parent) + z3 r\<rparr>)"

text \<open>
  \<open>raycaster.intersectObjects(objects, true)\<close> collects the intersections of the ray with
  every object and sorts them by ascending distance.  The intersection of a ray with the
  meshes of one object is geometry of three.js and stays a parameter \<open>hit\<close>, which gives
  the distances of the hits; only the distances are read by the simulation.
\<close>

definition intersectObjects :: "(ray \<Rightarrow> object3d \<Rightarrow> real list) \<Rightarrow> ray \<Rightarrow> object3d list \<Rightarrow> real list" where
  "intersectObjects hit r obs = sort (concat (map (hit r) obs))"

text \<open>\<open>Math.random()\<close>: the next number of the sequence.\<close>

definition Math_random :: "state \<Rightarrow> real \<times> state" where
  "Math_random s = (random s (randomCalls s), s\<lparr>randomCalls := Suc (randomCalls s)\<rparr>)"

section \<open>Adaptive cruise control\<close>

text \<open>The comparison \<open>frontDistance < 10\<close> is false when the reading is \<open>Infinity\<close>.\<close>

definition updateAdaptiveCruiseControl :: "state \<Rightarrow> state" where
  "updateAdaptiveCruiseControl s =
     (let frontDistance = frontReading (sensorReadings s);
          baseSpeed = 0.3
      in case frontDistance of
           Finite d \<Rightarrow>
             if d < 10
             then (let slowdownFactor = max 0.1 (d / 10)
                   in s\<lparr>targetSpeed := baseSpeed * slowdownFactor\<rparr>)
             else s\<lparr>targetSpeed := baseSpeed\<rparr>
         | Infinity \<Rightarrow> s\<lparr>targetSpeed := baseSpeed\<rparr>)"

section \<open>Lane keeping\<close>

text \<open>The distance in the ground plane between the car and the start of a segment.\<close>

definition segmentDistance :: "vec3 \<Rightarrow> curve \<Rightarrow> real" where
  "segmentDistance carPos segment =
     sqrt ((x3 carPos - px (position segment)) ^ 2 + (z3 carPos - pz (position segment)) ^ 2)"

text \<open>
  The scan for the nearest segment: the segments from index \<open>i\<close> on are still to visit,
  and the pair holds \<open>nearestSegmentIndex\<close> and \<open>minDistance\<close>.
\<close>

fun nearestSegmentLoop :: "vec3 \<Rightarrow> curve list \<Rightarrow> nat \<Rightarrow> nat \<times> jsnum \<Rightarrow> nat \<times> jsnum" where
  "nearestSegmentLoop carPos [] i (nearest, minDistance) = (nearest, minDistance)"
| "nearestSegmentLoop carPos (segment # rest) i (nearest, minDistance) =
     (let d = segmentDistance carPos segment
      in if less_jsnum d minDistance
         then nearestSegmentLoop carPos rest (Suc i) (i, Finite d)
         else nearestSegmentLoop carPos rest (Suc i) (nearest, minDistance))"

definition nearestSegmentIndex :: "vec3 \<Rightarrow> curve list \<Rightarrow> nat" where
  "nearestSegmentIndex carPos curves = fst (nearestSegmentLoop carPos curves 0 (0, Infinity))"

text \<open>\<open>rotatedX\<close>, the offset of the car from the start of the segment, turned by \<open>-roadAngle\<close>.\<close>

definition lateralOffset :: "vec3 \<Rightarrow> curve \<Rightarrow> real" where
  "lateralOffset carPos currentSegment =
     (let roadAngle = angle currentSegment;
          roadCenterX = px (position currentSegment);
          roadCenterZ = pz (position currentSegment);
          relativeX = x3 carPos - roadCenterX;
          relativeZ = z3 carPos - roadCenterZ
      in relativeX * cos (- roadAngle) - relativeZ * sin (- roadAngle))"

definition updateLaneKeeping :: "state \<Rightarrow> state" where
  "updateLaneKeeping s =
     (case car s of
        None \<Rightarrow> s
      | Some c \<Rightarrow>
          if roadCurves s = [] then s
          else
            (let carPos = position3 c;
                 currentSegment = roadCurves s ! nearestSegmentIndex carPos (roadCurves s);
                 steeringCorrection = - lateralOffset carPos currentSegment * 0.5;
                 predictiveSteering = curvature currentSegment * 10;
                 rot = carRotation s + (steeringCorrection + predictiveSteering) * carSpeed s
             in s\<lparr>carRotation := rot, car := Some (c\<lparr>rotation_y := rot\<rparr>)\<rparr>))"

section \<open>Sensors\<close>

text \<open>\<open>intersects.length > 0 ? intersects[0].distance : Infinity\<close>.\<close>

definition firstDistance :: "real list \<Rightarrow> jsnum" where
  "firstDistance intersects = (case intersects of [] \<Rightarrow> Infinity | d # _ \<Rightarrow> Finite d)"

text \<open>The ray of a sensor at \<open>local\<close> on the car, looking along \<open>dir\<close> in the frame of the car.\<close>

definition sensorRay :: "object3d \<Rightarrow> vec3 \<Rightarrow> vec3 \<Rightarrow> ray" where
  "sensorRay c local dir =
     \<lparr>origin = getWorldPosition c local,
      direction = normalize (applyQuaternion dir (quaternion_of c))\<rparr>"

text \<open>
  The guard tests the car and the front sensor only; reading the position of a left or
  right sensor that is \<open>null\<close> throws.
\<close>

definition updateSensors :: "(ray \<Rightarrow> object3d \<Rightarrow> real list) \<Rightarrow> state \<Rightarrow> error + state" where
  "updateSensors hit s =
     (case car s of
        None \<Rightarrow> Inr s
      | Some c \<Rightarrow>
         (case front (sensors s) of
            None \<Rightarrow> Inr s
          | Some f \<Rightarrow>
             (let frontIntersects =
                    intersectObjects hit (sensorRay c f \<lparr>x3 = 0, y3 = 0, z3 = 1\<rparr>) (obstacles s)
              in case left (sensors s) of
                   None \<Rightarrow> Inl TypeError
                 | Some l \<Rightarrow>
                    (let leftIntersects =
                           intersectObjects hit (sensorRay c l \<lparr>x3 = - 1, y3 = 0, z3 = 0\<rparr>) (obstacles s)
                     in case right (sensors s) of
                          None \<Rightarrow> Inl TypeError
                        | Some r \<Rightarrow>
                           (let rightIntersects =
                                  intersectObjects hit (sensorRay c r \<lparr>x3 = 1, y3 = 0, z3 = 0\<rparr>) (obstacles s)
                            in Inr (s\<lparr>sensorReadings :=
                                        \<lparr>frontReading = firstDistance frontIntersects,
                                         leftReading = firstDistance leftIntersects,
                                         rightReading = firstDistance rightIntersects\<rparr>\<rparr>))))))"

section \<open>The tick\<close>

text \<open>
  \<open>updateSimulation\<close>, with the result \<open>delta\<close> of \<open>clock.getDelta()\<close> as an argument.  The
  camera update is presentation and is left out.
\<close>

definition updateSimulation :: "(ray \<Rightarrow> object3d \<Rightarrow> real list) \<Rightarrow> state \<Rightarrow> real \<Rightarrow> error + state" where
  "updateSimulation hit s delta =
     (if car s = None \<or> \<not> initialized s then Inr s
      else
       (let s1 = (if adaptiveCruiseActive s then updateAdaptiveCruiseControl s else s);
            s2 = s1\<lparr>carSpeed := carSpeed s1 + (targetSpeed s1 - carSpeed s1) * 0.1\<rparr>;
            distanceStep = carSpeed s2 * delta * 20;
            forward = applyAxisAngle \<lparr>x3 = 0, y3 = 0, z3 = 1\<rparr> \<lparr>x3 = 0, y3 = 1, z3 = 0\<rparr> (carRotation s2);
            p = carPosition s2;
            s3 = s2\<lparr>carPosition := p\<lparr>x3 := x3 p + x3 forward * distanceStep,
                                     z3 := z3 p + z3 forward * distanceStep\<rparr>\<rparr>;
            s4 = s3\<lparr>car := map_option (\<lambda>c. c\<lparr>position3 := carPosition s3\<rparr>) (car s3)\<rparr>;
            s5 = s4\<lparr>distance := distance s4 + distanceStep\<rparr>;
            s6 = s5\<lparr>distanceState := \<lfloor>distance s5\<rfloor>, speedState := \<lfloor>carSpeed s5 * 100\<rfloor>\<rparr>;
            s7 = (if laneKeepingActive s then updateLaneKeeping s6 else s6)
        in case updateSensors hit s7 of
             Inl e \<Rightarrow> Inl e
           | Inr s8 \<Rightarrow>
               Inr (if distance s8 > roadLength s8 then s8\<lparr>isSimulationRunning := False\<rparr> else s8)))"

text \<open>One frame of \<open>animate\<close>: the tick runs only while the simulation is running.\<close>

definition animate :: "(ray \<Rightarrow> object3d \<Rightarrow> real list) \<Rightarrow> state \<Rightarrow> real \<Rightarrow> error + state" where
  "animate hit s delta = (if isSimulationRunning s then updateSimulation hit s delta else Inr s)"


section \<open>Road generation\<close>

text \<open>
  The first loop of \<open>generateRoad\<close>: it pushes one curve per segment; \<open>currentX\<close>,
  \<open>currentZ\<close> and \<open>currentAngle\<close> are the local variables of the source.
\<close>

function roadCurvesLoop :: "nat \<Rightarrow> real \<Rightarrow> nat \<Rightarrow> real \<Rightarrow> real \<Rightarrow> real \<Rightarrow> state \<Rightarrow> state" where
  "roadCurvesLoop segments segmentLength i currentX currentZ currentAngle s =
     (if i < segments
      then
        (let drawn = (if i < 3 then (0, s)
                      else (fst (Math_random s) * 0.03 - 0.015, snd (Math_random s)));
             c = fst drawn;
             s1 = snd drawn;
             s2 = s1\<lparr>roadCurves := roadCurves s1 @
                        [\<lparr>position = \<lparr>px = currentX, pz = currentZ\<rparr>,
                          angle = currentAngle, curvature = c\<rparr>]\<rparr>;
             currentAngle' = currentAngle + c
         in roadCurvesLoop segments segmentLength (Suc i)
              (currentX + sin currentAngle' * segmentLength)
              (currentZ + cos currentAngle' * segmentLength)
              currentAngle' s2)
      else s)"
  by pat_completeness auto
termination
  by (relation "measure (\<lambda>(segments, segmentLength, i, currentX, currentZ, currentAngle, s). segments - i)")
     auto

text \<open>
  The second loop of \<open>generateRoad\<close>, reduced to the obstacles: \<open>Math.random()\<close> is
  called for every segment, and once more for the side of a placed obstacle.
\<close>

function obstaclesLoop :: "nat \<Rightarrow> nat \<Rightarrow> state \<Rightarrow> state" where
  "obstaclesLoop segments i s =
     (if i < segments
      then
        (let c = roadCurves s ! i;
             r = fst (Math_random s);
             s1 = snd (Math_random s)
         in if r < 0.2 \<and> i > 3
            then
              (let r2 = fst (Math_random s1);
                   s2 = snd (Math_random s1);
                   laneOffset = (if r2 > 0.5 then 1 else - 1) * (roadWidth s2 / 4);
                   obstacle =
                     \<lparr>position3 =
                        \<lparr>x3 = px (position c) + sin (angle c) * laneOffset,
                         y3 = 0,
                         z3 = pz (position c) + cos (angle c) * laneOffset\<rparr>,
                      rotation_y = angle c\<rparr>
               in obstaclesLoop segments (Suc i) (s2\<lparr>obstacles := obstacles s2 @ [obstacle]\<rparr>))
            else obstaclesLoop segments (Suc i) s1)
      else s)"
  by pat_completeness auto
termination
  by (relation "measure (\<lambda>(segments, i, s). segments - i)") auto

declare roadCurvesLoop.simps [simp del]
declare obstaclesLoop.simps [simp del]

text \<open>
  The body of the first loop: the curvature it draws for segment \<open>i\<close>, and the state
  after the push.
\<close>

definition nextCurvature :: "nat \<Rightarrow> state \<Rightarrow> real" where
  "nextCurvature i s = (if i < 3 then 0 else random s (randomCalls s) * 0.03 - 0.015)"

definition pushCurve :: "nat \<Rightarrow> real \<Rightarrow> real \<Rightarrow> real \<Rightarrow> state \<Rightarrow> state" where
  "pushCurve i X Z A s =
     (if i < 3 then s else s\<lparr>randomCalls := Suc (randomCalls s)\<rparr>)
       \<lparr>roadCurves := roadCurves s @
          [\<lparr>position = \<lparr>px = X, pz = Z\<rparr>, angle = A, curvature = nextCurvature i s\<rparr>]\<rparr>"

text \<open>
  The body of the second loop: the obstacle it places on segment \<open>i\<close>, and the state
  after the segment.
\<close>

definition placedObstacle :: "nat \<Rightarrow> state \<Rightarrow> object3d" where
  "placedObstacle i s =
     (let c = roadCurves s ! i;
          laneOffset = (if random s (Suc (randomCalls s)) > 0.5 then 1 else - 1) * (roadWidth s / 4)
      in \<lparr>position3 =
            \<lparr>x3 = px (position c) + sin (angle c) * laneOffset,
             y3 = 0,
             z3 = pz (position c) + cos (angle c) * laneOffset\<rparr>,
          rotation_y = angle c\<rparr>)"

definition placeOrSkip :: "nat \<Rightarrow> state \<Rightarrow> state" where
  "placeOrSkip i s =
     (if random s (randomCalls s) < 0.2 \<and> i > 3
      then s\<lparr>randomCalls := Suc (Suc (randomCalls s)),
             obstacles := obstacles s @ [placedObstacle i s]\<rparr>
      else s\<lparr>randomCalls := Suc (randomCalls s)\<rparr>)"

definition generateRoad :: "state \<Rightarrow> state" where
  "generateRoad s =
     (let s0 = s\<lparr>obstacles := []\<rparr>;
          segments = 20;
          segmentLength = roadLength s0 / real segments;
          s1 = roadCurvesLoop segments segmentLength 0 0 0 0 (s0\<lparr>roadCurves := []\<rparr>);
          s2 = obstaclesLoop segments 0 s1;
          s3 = s2\<lparr>carPosition := \<lparr>x3 = 0, y3 = 0.5, z3 = 0\<rparr>, carRotation := 0\<rparr>;
          s4 = s3\<lparr>car := map_option
                  (\<lambda>c. c\<lparr>position3 := carPosition s3, rotation_y := carRotation s3\<rparr>) (car s3)\<rparr>
      in s4\<lparr>distance := 0, distanceState := 0, speedState := 0\<rparr>)"

section \<open>Set-up and the commands of the user\<close>

definition setupCar :: "state \<Rightarrow> state" where
  "setupCar s =
     s\<lparr>car := Some \<lparr>position3 = carPosition s, rotation_y = carRotation s\<rparr>,
       sensors := \<lparr>front = Some \<lparr>x3 = 0, y3 = 0.5, z3 = 2\<rparr>,
                   left = Some \<lparr>x3 = - 1, y3 = 0.5, z3 = 0\<rparr>,
                   right = Some \<lparr>x3 = 1, y3 = 0.5, z3 = 0\<rparr>\<rparr>\<rparr>"

text \<open>The scene initialisation effect: the car, the first road, then \<open>initialized\<close>.\<close>

definition initScene :: "state \<Rightarrow> state" where
  "initScene s = (generateRoad (setupCar s))\<lparr>initialized := True\<rparr>"

definition handleStartSimulation :: "state \<Rightarrow> state" where
  "handleStartSimulation s =
     (if \<not> isSimulationRunning s
      then (generateRoad s)\<lparr>isSimulationRunning := True\<rparr>
      else s)"

definition handleStopSimulation :: "state \<Rightarrow> state" where
  "handleStopSimulation s =
     (if isSimulationRunning s then s\<lparr>isSimulationRunning := False\<rparr> else s)"

text \<open>
  The initial value of \<open>simulationRef\<close> and of the React state, for a given sequence of
  results of \<open>Math.random()\<close>.
\<close>

definition initialState :: "(nat \<Rightarrow> real) \<Rightarrow> state" where
  "initialState rnd =
     \<lparr>car = None, roadLength = 500, roadWidth = 12, laneWidth = 4, roadCurves = [],
      carSpeed = 0.3, targetSpeed = 0.3,
      carPosition = \<lparr>x3 = 0, y3 = 0.5, z3 = 0\<rparr>, carRotation = 0,
      obstacles = [],
      sensors = \<lparr>front = None, left = None, right = None\<rparr>,
      sensorReadings = \<lparr>frontReading = Infinity, leftReading = Infinity, rightReading = Infinity\<rparr>,
      distance = 0, initialized = False,
      isSimulationRunning = False, laneKeepingActive = True, adaptiveCruiseActive = True,
      speedState = 0, distanceState = 0,
      random = rnd, randomCalls = 0\<rparr>"

text \<open>What can happen to the component, and the states it can be in.\<close>

datatype event =
    Init
  | Start
  | Stop
  | ToggleLaneKeeping
  | ToggleAdaptiveCruise
  | Frame real

fun step :: "(ray \<Rightarrow> object3d \<Rightarrow> real list) \<Rightarrow> state \<Rightarrow> event \<Rightarrow> error + state" where
  "step hit s Init = Inr (initScene s)"
| "step hit s Start = Inr (handleStartSimulation s)"
| "step hit s Stop = Inr (handleStopSimulation s)"
| "step hit s ToggleLaneKeeping = Inr (s\<lparr>laneKeepingActive := \<not> laneKeepingActive s\<rparr>)"
| "step hit s ToggleAdaptiveCruise = Inr (s\<lparr>adaptiveCruiseActive := \<not> adaptiveCruiseActive s\<rparr>)"
| "step hit s (Frame delta) = animate hit s delta"

inductive reachable :: "(ray \<Rightarrow> object3d \<Rightarrow> real list) \<Rightarrow> state \<Rightarrow> bool" for hit where
  reachable_initial: "reachable hit (initialState rnd)"
| reachable_step: "reachable hit s \<Longrightarrow> step hit s e = Inr s' \<Longrightarrow> reachable hit s'"

text \<open>A run of frames, stopping at the first error.\<close>

fun frames :: "(ray \<Rightarrow> object3d \<Rightarrow> real list) \<Rightarrow> state \<Rightarrow> real list \<Rightarrow> error + state" where
  "frames hit s [] = Inr s"
| "frames hit s (delta # deltas) =
     (case animate hit s delta of Inl e \<Rightarrow> Inl e | Inr s' \<Rightarrow> frames hit s' deltas)"

section \<open>The contracts of the specification\<close>

text \<open>
  \<open>CruiseController.regulate(forwardClearance, baseSpeed)\<close> as the specification words
  it: below a clearance of 10 the base speed is scaled by \<open>max(0.1, forwardClearance / 10)\<close>,
  otherwise the target is the base speed.
\<close>

definition regulate :: "jsnum \<Rightarrow> real \<Rightarrow> real" where
  "regulate forwardClearance baseSpeed =
     (case forwardClearance of
        Finite d \<Rightarrow> if d < 10 then baseSpeed * max 0.1 (d / 10) else baseSpeed
      | Infinity \<Rightarrow> baseSpeed)"

text \<open>
  The sensors are complete when the left and right sensors exist wherever the front one
  does, as after \<open>setupCar\<close>: then \<open>updateSensors\<close> does not throw.
\<close>

definition sensorsComplete :: "state \<Rightarrow> bool" where
  "sensorsComplete s = (front (sensors s) = None \<or> (left (sensors s) \<noteq> None \<and> right (sensors s) \<noteq> None))"

text \<open>
  A list of curves is linked with segment length \<open>L\<close> when every curve but the first
  has the heading of its predecessor plus the curvature of its predecessor, and starts
  \<open>L\<close> further along its own heading.
\<close>

definition linked :: "real \<Rightarrow> curve list \<Rightarrow> bool" where
  "linked L cs =
     (\<forall>i. Suc i < length cs \<longrightarrow>
        angle (cs ! Suc i) = angle (cs ! i) + curvature (cs ! i)
        \<and> position (cs ! Suc i) =
            \<lparr>px = px (position (cs ! i)) + sin (angle (cs ! Suc i)) * L,
             pz = pz (position (cs ! i)) + cos (angle (cs ! Suc i)) * L\<rparr>)"

text \<open>
  The obstacle that the second loop of \<open>generateRoad\<close> builds for a curve and a lane
  offset.
\<close>

definition obstacleAt :: "curve \<Rightarrow> real \<Rightarrow> object3d" where
  "obstacleAt c laneOffset =
     \<lparr>position3 =
        \<lparr>x3 = px (position c) + sin (angle c) * laneOffset,
         y3 = 0,
         z3 = pz (position c) + cos (angle c) * laneOffset\<rparr>,
      rotation_y = angle c\<rparr>"

text \<open>
  The displacement of a point from the start of a segment, split along the heading
  \<open>(sin angle, cos angle)\<close> of the segment and along its perpendicular
  \<open>(cos angle, - sin angle)\<close>, the lateral direction.
\<close>

definition alongComponent :: "curve \<Rightarrow> vec3 \<Rightarrow> real" where
  "alongComponent c p =
     (x3 p - px (position c)) * sin (angle c) + (z3 p - pz (position c)) * cos (angle c)"

definition lateralComponent :: "curve \<Rightarrow> vec3 \<Rightarrow> real" where
  "lateralComponent c p =
     (x3 p - px (position c)) * cos (angle c) - (z3 p - pz (position c)) * sin (angle c)"

text \<open>
  \<open>SensorModel.sense\<close> as the specification words it: the distances of all hits of a ray
  on the obstacles, and the nearest of them, \<open>Infinity\<close> when there is none.
\<close>

definition hitDistances :: "(ray \<Rightarrow> object3d \<Rightarrow> real list) \<Rightarrow> ray \<Rightarrow> object3d list \<Rightarrow> real list" where
  "hitDistances hit r obs = concat (map (hit r) obs)"

definition nearestHit :: "real list \<Rightarrow> jsnum" where
  "nearestHit ds = (if ds = [] then Infinity else Finite (Min (set ds)))"

text \<open>
  What holds in every state the component can reach: the sensors are complete, a car
  never exists without a road, and both speeds lie between 0.03 and 0.3.
\<close>

definition invariant :: "state \<Rightarrow> bool" where
  "invariant s =
     (sensorsComplete s
      \<and> (car s = None \<or> roadCurves s \<noteq> [])
      \<and> 0.03 \<le> carSpeed s \<and> carSpeed s \<le> 0.3
      \<and> 0.03 \<le> targetSpeed s \<and> targetSpeed s \<le> 0.3)"

section \<open>Example states\<close>

text \<open>A car one unit to the side of two segments that start equally far from it.\<close>

definition laneState :: state where
  "laneState = (initialState (\<lambda>_. 0))
     \<lparr>car := Some \<lparr>position3 = \<lparr>x3 = 1, y3 = 0.5, z3 = 0\<rparr>, rotation_y = 0\<rparr>,
      roadCurves := [\<lparr>position = \<lparr>px = 0, pz = 1\<rparr>, angle = 0, curvature = 0.01\<rparr>,
                     \<lparr>position = \<lparr>px = 0, pz = - 1\<rparr>, angle = 0, curvature = 0.02\<rparr>]\<rparr>"

text \<open>A car at the origin, before any road exists, with cruise control on and no sensors.\<close>

definition tickState :: state where
  "tickState = (initialState (\<lambda>_. 0))
     \<lparr>car := Some \<lparr>position3 = \<lparr>x3 = 0, y3 = 0.5, z3 = 0\<rparr>, rotation_y = 0\<rparr>,
      initialized := True\<rparr>"

text \<open>
  Results of \<open>Math.random()\<close> that give a straight road with one obstacle, on segment 4:
  the 22nd call, which decides the placement there, returns 0.1, every other call 0.5.
\<close>

definition exampleRandom :: "nat \<Rightarrow> real" where
  "exampleRandom n = (if n = 21 then 0.1 else 0.5)"

text \<open>
  A car with its sensors and two obstacles ahead; the example intersection reports, for
  a ray that looks along z, the far and the near face of an obstacle.
\<close>

definition sensorState :: state where
  "sensorState = (setupCar (initialState (\<lambda>_. 0)))
     \<lparr>obstacles := [\<lparr>position3 = \<lparr>x3 = 0, y3 = 0, z3 = 10\<rparr>, rotation_y = 0\<rparr>,
                     \<lparr>position3 = \<lparr>x3 = 0, y3 = 0, z3 = 20\<rparr>, rotation_y = 0\<rparr>]\<rparr>"

definition exampleHit :: "ray \<Rightarrow> object3d \<Rightarrow> real list" where
  "exampleHit r ob =
     (if z3 (direction r) = 1
      then [z3 (position3 ob) + 2 - z3 (origin r), z3 (position3 ob) - 2 - z3 (origin r)]
      else [])"


text \<open>The car of \<open>tickState\<close> while the simulation is running.\<close>

definition runState :: state where
  "runState = tickState\<lparr>isSimulationRunning := True\<rparr>"

text \<open>
  A simulation that has been initialised and is running, six units down the road.
\<close>

definition runningState :: state where
  "runningState = (initScene (initialState exampleRandom))
     \<lparr>isSimulationRunning := True, distance := 6, distanceState := 6, speedState := 30\<rparr>"

section \<open>Frame conditions\<close>

lemma forward_direction:
  "applyAxisAngle \<lparr>x3 = 0, y3 = 0, z3 = 1\<rparr> \<lparr>x3 = 0, y3 = 1, z3 = 0\<rparr> a = \<lparr>x3 = sin a, y3 = 0, z3 = cos a\<rparr>"
proof -
  have s: "sin a = 2 * sin (a / 2) * cos (a / 2)"
    using sin_double [of "a / 2"] by simp
  have c: "cos a = 1 - 2 * (sin (a / 2) * sin (a / 2))"
    using cos_double_sin [of "a / 2"] by (simp add: power2_eq_square)
  show ?thesis
    by (simp add: applyAxisAngle_def applyQuaternion_def setFromAxisAngle_def Let_def s c)
qed

lemma updateAdaptiveCruiseControl_other [simp]:
  "carSpeed (updateAdaptiveCruiseControl s) = carSpeed s"
  "car (updateAdaptiveCruiseControl s) = car s"
  "carPosition (updateAdaptiveCruiseControl s) = carPosition s"
  "carRotation (updateAdaptiveCruiseControl s) = carRotation s"
  "distance (updateAdaptiveCruiseControl s) = distance s"
  "roadLength (updateAdaptiveCruiseControl s) = roadLength s"
  "roadCurves (updateAdaptiveCruiseControl s) = roadCurves s"
  "sensors (updateAdaptiveCruiseControl s) = sensors s"
  "initialized (updateAdaptiveCruiseControl s) = initialized s"
  "isSimulationRunning (updateAdaptiveCruiseControl s) = isSimulationRunning s"
  by (simp_all add: updateAdaptiveCruiseControl_def Let_def split: jsnum.splits)

lemma updateLaneKeeping_other [simp]:
  "carSpeed (updateLaneKeeping s) = carSpeed s"
  "targetSpeed (updateLaneKeeping s) = targetSpeed s"
  "carPosition (updateLaneKeeping s) = carPosition s"
  "distance (updateLaneKeeping s) = distance s"
  "roadLength (updateLaneKeeping s) = roadLength s"
  "roadCurves (updateLaneKeeping s) = roadCurves s"
  "sensors (updateLaneKeeping s) = sensors s"
  "initialized (updateLaneKeeping s) = initialized s"
  "isSimulationRunning (updateLaneKeeping s) = isSimulationRunning s"
  by (simp_all add: updateLaneKeeping_def Let_def split: option.splits)

lemma updateLaneKeeping_car [simp]: "(car (updateLaneKeeping s) = None) = (car s = None)"
  by (simp add: updateLaneKeeping_def Let_def split: option.splits)

lemma updateSensors_other:
  assumes "updateSensors hit s = Inr s'"
  shows "carSpeed s' = carSpeed s" "targetSpeed s' = targetSpeed s"
    "carPosition s' = carPosition s" "carRotation s' = carRotation s"
    "distance s' = distance s" "roadLength s' = roadLength s"
    "roadCurves s' = roadCurves s" "car s' = car s" "sensors s' = sensors s"
    "initialized s' = initialized s" "isSimulationRunning s' = isSimulationRunning s"
  using assms by (auto simp: updateSensors_def Let_def split: option.splits)

lemma updateSensors_returns:
  assumes "front (sensors s) \<noteq> None \<longrightarrow> left (sensors s) \<noteq> None \<and> right (sensors s) \<noteq> None"
  shows "\<exists>s'. updateSensors hit s = Inr s'"
  using assms by (auto simp: updateSensors_def Let_def split: option.splits)

section \<open>Adaptive cruise control: the target speed\<close>

text \<open>
  Claim C2.  The cruise controller sets the target speed to what \<open>regulate\<close> gives for
  the front reading and the base speed 0.3: \<open>0.3 * max 0.1 (d / 10)\<close> for a clearance
  \<open>d\<close> below 10, and 0.3 otherwise (also for a reading of \<open>Infinity\<close>).  At the
  clearances 5, 20 and 0 the target speeds are 0.15, 0.3 and 0.03.
\<close>

theorem cruise_target:
  "targetSpeed (updateAdaptiveCruiseControl s) = regulate (frontReading (sensorReadings s)) 0.3
   \<and> regulate (Finite d) 0.3 = (if d < 10 then 0.3 * max 0.1 (d / 10) else 0.3)
   \<and> regulate Infinity 0.3 = 0.3
   \<and> regulate (Finite 5) 0.3 = 0.15
   \<and> regulate (Finite 20) 0.3 = 0.3
   \<and> regulate (Finite 0) 0.3 = 0.03"
  by (simp add: updateAdaptiveCruiseControl_def regulate_def Let_def split: jsnum.splits)

section \<open>Lane keeping: the nearest segment and the steering\<close>

lemma nearestSegmentLoop_inv:
  assumes "(m = Infinity \<and> pre = [] \<and> n = 0) \<or>
           (n < length pre \<and> m = Finite (segmentDistance p (pre ! n))
            \<and> (\<forall>j<length pre. segmentDistance p (pre ! n) \<le> segmentDistance p (pre ! j))
            \<and> (\<forall>j<n. segmentDistance p (pre ! n) < segmentDistance p (pre ! j)))"
    and "nearestSegmentLoop p rest (length pre) (n, m) = (n', m')"
    and "pre @ rest \<noteq> []"
  shows "n' < length (pre @ rest) \<and> m' = Finite (segmentDistance p ((pre @ rest) ! n'))
         \<and> (\<forall>j<length (pre @ rest). segmentDistance p ((pre @ rest) ! n') \<le> segmentDistance p ((pre @ rest) ! j))
         \<and> (\<forall>j<n'. segmentDistance p ((pre @ rest) ! n') < segmentDistance p ((pre @ rest) ! j))"
  using assms
proof (induction rest arbitrary: pre n m)
  case Nil
  then show ?case by auto
next
  case (Cons seg rest)
  let ?d = "segmentDistance p seg"
  let ?pre = "pre @ [seg]"
  have len: "length ?pre = Suc (length pre)" by simp
  show ?case
  proof (cases "less_jsnum ?d m")
    case True
    have run: "nearestSegmentLoop p rest (length ?pre) (length pre, Finite ?d) = (n', m')"
      using Cons.prems(2) True by (simp add: Let_def)
    have inv: "(Finite ?d = Infinity \<and> ?pre = [] \<and> length pre = 0) \<or>
           (length pre < length ?pre \<and> Finite ?d = Finite (segmentDistance p (?pre ! length pre))
            \<and> (\<forall>j<length ?pre. segmentDistance p (?pre ! length pre) \<le> segmentDistance p (?pre ! j))
            \<and> (\<forall>j<length pre. segmentDistance p (?pre ! length pre) < segmentDistance p (?pre ! j)))"
      using Cons.prems(1) True by (auto simp: nth_append less_Suc_eq)
    from Cons.IH [OF inv run] show ?thesis by simp
  next
    case False
    have run: "nearestSegmentLoop p rest (length ?pre) (n, m) = (n', m')"
      using Cons.prems(2) False by (simp add: Let_def)
    from False obtain b where m: "m = Finite b" and b: "b \<le> ?d"
      by (cases m) auto
    have inv: "(m = Infinity \<and> ?pre = [] \<and> n = 0) \<or>
           (n < length ?pre \<and> m = Finite (segmentDistance p (?pre ! n))
            \<and> (\<forall>j<length ?pre. segmentDistance p (?pre ! n) \<le> segmentDistance p (?pre ! j))
            \<and> (\<forall>j<n. segmentDistance p (?pre ! n) < segmentDistance p (?pre ! j)))"
      using Cons.prems(1) m b by (auto simp: nth_append less_Suc_eq)
    from Cons.IH [OF inv run] show ?thesis by simp
  qed
qed

lemma nearestSegmentIndex_nearest:
  assumes "cs \<noteq> []"
  shows "nearestSegmentIndex p cs < length cs"
    and "\<forall>j<length cs. segmentDistance p (cs ! nearestSegmentIndex p cs) \<le> segmentDistance p (cs ! j)"
    and "\<forall>j<nearestSegmentIndex p cs. segmentDistance p (cs ! nearestSegmentIndex p cs) < segmentDistance p (cs ! j)"
proof -
  obtain n' m' where r: "nearestSegmentLoop p cs (length ([]::curve list)) (0, Infinity) = (n', m')"
    by (cases "nearestSegmentLoop p cs (length ([]::curve list)) (0, Infinity)") auto
  have n': "nearestSegmentIndex p cs = n'"
    using r by (simp add: nearestSegmentIndex_def)
  have "n' < length ([] @ cs) \<and> m' = Finite (segmentDistance p (([] @ cs) ! n'))
         \<and> (\<forall>j<length ([] @ cs). segmentDistance p (([] @ cs) ! n') \<le> segmentDistance p (([] @ cs) ! j))
         \<and> (\<forall>j<n'. segmentDistance p (([] @ cs) ! n') < segmentDistance p (([] @ cs) ! j))"
    by (rule nearestSegmentLoop_inv [OF _ r]) (use assms in auto)
  then show "nearestSegmentIndex p cs < length cs"
    and "\<forall>j<length cs. segmentDistance p (cs ! nearestSegmentIndex p cs) \<le> segmentDistance p (cs ! j)"
    and "\<forall>j<nearestSegmentIndex p cs. segmentDistance p (cs ! nearestSegmentIndex p cs) < segmentDistance p (cs ! j)"
    by (simp_all add: n')
qed

text \<open>
  The headings of the road follow \<open>(sin angle, cos angle)\<close>, while \<open>lateralOffset\<close> turns
  with the usual rotation matrix: for a car \<open>t\<close> units ahead of the start of a segment,
  on its centreline, the offset is \<open>t * sin (2 * angle)\<close>, which is 0 only on a segment
  whose heading is a multiple of a quarter turn.
\<close>

lemma lateralOffset_on_centreline:
  "lateralOffset
     \<lparr>x3 = px (position seg) + t * sin (angle seg), y3 = h,
      z3 = pz (position seg) + t * cos (angle seg)\<rparr> seg
   = t * sin (2 * angle seg)"
  by (simp add: lateralOffset_def Let_def sin_double)

lemma lateralOffset_formula:
  "lateralOffset p seg =
     (x3 p - px (position seg)) * cos (angle seg) + (z3 p - pz (position seg)) * sin (angle seg)"
  by (simp add: lateralOffset_def Let_def)

lemma updateLaneKeeping_steering:
  assumes "car s = Some c" and "roadCurves s \<noteq> []"
  shows "let p = position3 c;
             cs = roadCurves s;
             i = nearestSegmentIndex p cs;
             seg = cs ! i;
             d = (\<lambda>j. sqrt ((x3 p - px (position (cs ! j))) ^ 2 + (z3 p - pz (position (cs ! j))) ^ 2));
             offset = (x3 p - px (position seg)) * cos (angle seg)
                      + (z3 p - pz (position seg)) * sin (angle seg)
         in i < length cs
            \<and> (\<forall>j<length cs. d i \<le> d j)
            \<and> (\<forall>j<i. d i < d j)
            \<and> carRotation (updateLaneKeeping s) =
                carRotation s + (- offset * 0.5 + curvature seg * 10) * carSpeed s
            \<and> car (updateLaneKeeping s) =
                Some (c\<lparr>rotation_y := carRotation (updateLaneKeeping s)\<rparr>)"
proof -
  let ?p = "position3 c"
  let ?cs = "roadCurves s"
  let ?i = "nearestSegmentIndex ?p ?cs"
  note n = nearestSegmentIndex_nearest [OF assms(2), of ?p]
  have r: "carRotation (updateLaneKeeping s) =
      carRotation s + (- lateralOffset ?p (?cs ! ?i) * 0.5 + curvature (?cs ! ?i) * 10) * carSpeed s"
    and c: "car (updateLaneKeeping s) = Some (c\<lparr>rotation_y := carRotation (updateLaneKeeping s)\<rparr>)"
    using assms by (simp_all add: updateLaneKeeping_def Let_def)
  show ?thesis
    unfolding Let_def segmentDistance_def [symmetric] lateralOffset_formula [symmetric]
    using n r c by blast
qed

lemma updateLaneKeeping_example:
  "nearestSegmentIndex \<lparr>x3 = 1, y3 = 0.5, z3 = 0\<rparr> (roadCurves laneState) = 0
   \<and> carRotation (updateLaneKeeping laneState) = - 0.12"
proof -
  have c: "car laneState = Some \<lparr>position3 = \<lparr>x3 = 1, y3 = 0.5, z3 = 0\<rparr>, rotation_y = 0\<rparr>"
    and r: "roadCurves laneState \<noteq> []"
    by (simp_all add: laneState_def)
  have i: "nearestSegmentIndex \<lparr>x3 = 1, y3 = 0.5, z3 = 0\<rparr> (roadCurves laneState) = 0"
    by (simp add: laneState_def nearestSegmentIndex_def segmentDistance_def)
  show ?thesis
    using updateLaneKeeping_steering [OF c r] i
    by (simp add: Let_def) (simp add: laneState_def initialState_def)
qed


lemma centreline_offset_nonzero:
  assumes "angle seg \<noteq> 0" and "\<bar>angle seg\<bar> \<le> 0.255" and "t \<noteq> 0"
  shows "lateralOffset
     \<lparr>x3 = px (position seg) + t * sin (angle seg), y3 = h,
      z3 = pz (position seg) + t * cos (angle seg)\<rparr> seg \<noteq> 0"
proof -
  have "\<bar>angle seg\<bar> \<le> 1 / 2"
    using assms(2) by simp
  then have p: "2 * \<bar>angle seg\<bar> < pi"
    using pi_ge_two by linarith
  have "sin (2 * angle seg) \<noteq> 0"
  proof (cases "0 < angle seg")
    case True
    then have "0 < sin (2 * angle seg)"
      using p by (intro sin_gt_zero) simp_all
    then show ?thesis by simp
  next
    case False
    with assms(1) have n: "angle seg < 0" by simp
    then have "0 < sin (2 * (- angle seg))"
      using p by (intro sin_gt_zero) simp_all
    then show ?thesis by simp
  qed
  with assms(3) show ?thesis
    by (simp add: lateralOffset_on_centreline)
qed



section \<open>The tick: speed, position and distance\<close>

lemma updateLaneKeeping_car_Some [simp]:
  "(\<exists>y. car (updateLaneKeeping s) = Some y) = (\<exists>y. car s = Some y)"
  by (simp add: updateLaneKeeping_def Let_def split: option.splits)

lemma sensorsComplete_returns:
  assumes "sensorsComplete s"
  shows "\<exists>s'. updateSensors hit s = Inr s'"
  using assms by (auto simp: sensorsComplete_def updateSensors_def Let_def split: option.splits)

lemma updateSimulation_run:
  assumes "car s \<noteq> None" and "initialized s" and "sensorsComplete s"
  shows "\<exists>s'. updateSimulation hit s delta = Inr s'
     \<and> targetSpeed s' = (if adaptiveCruiseActive s then regulate (frontReading (sensorReadings s)) 0.3
                         else targetSpeed s)
     \<and> carSpeed s' = carSpeed s + (targetSpeed s' - carSpeed s) * 0.1
     \<and> carPosition s' =
         \<lparr>x3 = x3 (carPosition s) + sin (carRotation s) * (carSpeed s' * delta * 20),
          y3 = y3 (carPosition s),
          z3 = z3 (carPosition s) + cos (carRotation s) * (carSpeed s' * delta * 20)\<rparr>
     \<and> distance s' = distance s + carSpeed s' * delta * 20
     \<and> roadLength s' = roadLength s \<and> roadCurves s' = roadCurves s
     \<and> car s' \<noteq> None \<and> initialized s' \<and> sensorsComplete s'
     \<and> (isSimulationRunning s' = (isSimulationRunning s \<and> \<not> distance s' > roadLength s'))"
proof -
  from assms(1) obtain c where c: "car s = Some c" by auto
  define s1 where "s1 = (if adaptiveCruiseActive s then updateAdaptiveCruiseControl s else s)"
  define s2 where "s2 = s1\<lparr>carSpeed := carSpeed s1 + (targetSpeed s1 - carSpeed s1) * 0.1\<rparr>"
  define distanceStep where "distanceStep = carSpeed s2 * delta * 20"
  define s3 where "s3 = s2\<lparr>carPosition := (carPosition s2)\<lparr>x3 := x3 (carPosition s2) + sin (carRotation s2) * distanceStep,
                                     z3 := z3 (carPosition s2) + cos (carRotation s2) * distanceStep\<rparr>\<rparr>"
  define s4 where "s4 = s3\<lparr>car := map_option (\<lambda>c. c\<lparr>position3 := carPosition s3\<rparr>) (car s3)\<rparr>"
  define s5 where "s5 = s4\<lparr>distance := distance s4 + distanceStep\<rparr>"
  define s6 where "s6 = s5\<lparr>distanceState := \<lfloor>distance s5\<rfloor>, speedState := \<lfloor>carSpeed s5 * 100\<rfloor>\<rparr>"
  define s7 where "s7 = (if laneKeepingActive s then updateLaneKeeping s6 else s6)"
  have t1: "targetSpeed s1 = (if adaptiveCruiseActive s then regulate (frontReading (sensorReadings s)) 0.3
                         else targetSpeed s)"
    by (simp add: s1_def updateAdaptiveCruiseControl_def regulate_def Let_def split: jsnum.splits)
  have f7: "targetSpeed s7 = targetSpeed s1" "carSpeed s7 = carSpeed s + (targetSpeed s1 - carSpeed s) * 0.1"
    "distance s7 = distance s + distanceStep" "roadLength s7 = roadLength s" "roadCurves s7 = roadCurves s"
    "car s7 \<noteq> None" "initialized s7" "sensors s7 = sensors s" "isSimulationRunning s7 = isSimulationRunning s"
    "carPosition s7 = \<lparr>x3 = x3 (carPosition s) + sin (carRotation s) * distanceStep,
          y3 = y3 (carPosition s),
          z3 = z3 (carPosition s) + cos (carRotation s) * distanceStep\<rparr>"
    "distanceStep = (carSpeed s + (targetSpeed s1 - carSpeed s) * 0.1) * delta * 20"
    using assms(1,2)
    by (simp_all add: s7_def s6_def s5_def s4_def s3_def s2_def s1_def distanceStep_def)
  have "sensorsComplete s7"
    using assms(3) f7 by (simp add: sensorsComplete_def)
  then obtain s8 where s8: "updateSensors hit s7 = Inr s8"
    using sensorsComplete_returns by blast
  note f8 = updateSensors_other [OF s8]
  have u0: "updateSimulation hit s delta =
      (case updateSensors hit s7 of
         Inl e \<Rightarrow> Inl e
       | Inr s8 \<Rightarrow> Inr (if distance s8 > roadLength s8 then s8\<lparr>isSimulationRunning := False\<rparr> else s8))"
    using c assms(2)
    unfolding updateSimulation_def Let_def forward_direction
      s7_def s6_def s5_def s4_def s3_def s2_def s1_def distanceStep_def
    by simp
  have u: "updateSimulation hit s delta =
      Inr (if distance s8 > roadLength s8 then s8\<lparr>isSimulationRunning := False\<rparr> else s8)"
    unfolding u0 s8 by simp
  define s9 where "s9 = (if distance s8 > roadLength s8 then s8\<lparr>isSimulationRunning := False\<rparr> else s8)"
  have g: "targetSpeed s9 = targetSpeed s1" "carSpeed s9 = carSpeed s + (targetSpeed s1 - carSpeed s) * 0.1"
    "distance s9 = distance s + distanceStep" "roadLength s9 = roadLength s" "roadCurves s9 = roadCurves s"
    "car s9 \<noteq> None" "initialized s9" "sensors s9 = sensors s"
    "isSimulationRunning s9 = (isSimulationRunning s \<and> \<not> distance s9 > roadLength s9)"
    "carPosition s9 = \<lparr>x3 = x3 (carPosition s) + sin (carRotation s) * distanceStep,
          y3 = y3 (carPosition s),
          z3 = z3 (carPosition s) + cos (carRotation s) * distanceStep\<rparr>"
    using f7(6) by (simp_all add: s9_def f8 f7(1-5) f7(7-10))
  have step: "distanceStep = carSpeed s9 * delta * 20"
    by (simp add: g(2) f7(11))
  have "updateSimulation hit s delta = Inr s9"
    by (simp add: u s9_def)
  moreover have "targetSpeed s9 = (if adaptiveCruiseActive s then regulate (frontReading (sensorReadings s)) 0.3
                         else targetSpeed s)"
    by (simp only: g(1) t1)
  moreover have "carSpeed s9 = carSpeed s + (targetSpeed s9 - carSpeed s) * 0.1"
    by (simp only: g(1) g(2))
  moreover have "sensorsComplete s9"
    using assms(3) by (simp add: sensorsComplete_def g(8))
  ultimately show ?thesis
    using g(3-7) g(9,10) unfolding step by blast
qed


text \<open>
  The steering within a tick: with lane keeping on, the heading changes by the steering
  that \<open>updateLaneKeeping\<close> computes from the position and the speed the tick has just
  set.
\<close>

lemma updateSimulation_steering:
  assumes "car s = Some c" and "initialized s" and "sensorsComplete s"
    and "laneKeepingActive s" and "roadCurves s \<noteq> []"
  shows "\<exists>s'. updateSimulation hit s delta = Inr s'
     \<and> carRotation s' =
         carRotation s
         + (- lateralOffset (carPosition s')
                (roadCurves s ! nearestSegmentIndex (carPosition s') (roadCurves s)) * 0.5
            + curvature (roadCurves s ! nearestSegmentIndex (carPosition s') (roadCurves s)) * 10)
           * carSpeed s'"
proof -
  define s1 where "s1 = (if adaptiveCruiseActive s then updateAdaptiveCruiseControl s else s)"
  define s2 where "s2 = s1\<lparr>carSpeed := carSpeed s1 + (targetSpeed s1 - carSpeed s1) * 0.1\<rparr>"
  define distanceStep where "distanceStep = carSpeed s2 * delta * 20"
  define s3 where "s3 = s2\<lparr>carPosition := (carPosition s2)\<lparr>x3 := x3 (carPosition s2) + sin (carRotation s2) * distanceStep,
                                     z3 := z3 (carPosition s2) + cos (carRotation s2) * distanceStep\<rparr>\<rparr>"
  define s4 where "s4 = s3\<lparr>car := map_option (\<lambda>c. c\<lparr>position3 := carPosition s3\<rparr>) (car s3)\<rparr>"
  define s5 where "s5 = s4\<lparr>distance := distance s4 + distanceStep\<rparr>"
  define s6 where "s6 = s5\<lparr>distanceState := \<lfloor>distance s5\<rfloor>, speedState := \<lfloor>carSpeed s5 * 100\<rfloor>\<rparr>"
  define s7 where "s7 = (if laneKeepingActive s then updateLaneKeeping s6 else s6)"
  have f6: "car s6 = Some (c\<lparr>position3 := carPosition s6\<rparr>)" "roadCurves s6 = roadCurves s"
    "carRotation s6 = carRotation s" "sensors s6 = sensors s"
    using assms(1) by (simp_all add: s6_def s5_def s4_def s3_def s2_def s1_def)
  have k: "s7 = updateLaneKeeping s6"
    using assms(4) by (simp add: s7_def)
  have f7: "carRotation s7 =
      carRotation s
      + (- lateralOffset (carPosition s7)
             (roadCurves s ! nearestSegmentIndex (carPosition s7) (roadCurves s)) * 0.5
         + curvature (roadCurves s ! nearestSegmentIndex (carPosition s7) (roadCurves s)) * 10)
        * carSpeed s7"
    "sensors s7 = sensors s"
    unfolding k using assms(5) by (simp_all add: updateLaneKeeping_def f6 Let_def)
  have "sensorsComplete s7"
    using assms(3) by (simp add: sensorsComplete_def f7(2))
  then obtain s8 where s8: "updateSensors hit s7 = Inr s8"
    using sensorsComplete_returns by blast
  note f8 = updateSensors_other [OF s8]
  have u0: "updateSimulation hit s delta =
      (case updateSensors hit s7 of
         Inl e \<Rightarrow> Inl e
       | Inr s8 \<Rightarrow> Inr (if distance s8 > roadLength s8 then s8\<lparr>isSimulationRunning := False\<rparr> else s8))"
    using assms(1,2)
    unfolding updateSimulation_def Let_def forward_direction
      s7_def s6_def s5_def s4_def s3_def s2_def s1_def distanceStep_def
    by simp
  define s9 where "s9 = (if distance s8 > roadLength s8 then s8\<lparr>isSimulationRunning := False\<rparr> else s8)"
  have u: "updateSimulation hit s delta = Inr s9"
    unfolding u0 s8 by (simp add: s9_def)
  have g: "carRotation s9 = carRotation s7" "carPosition s9 = carPosition s7" "carSpeed s9 = carSpeed s7"
    by (simp_all add: s9_def f8)
  show ?thesis
    unfolding u using f7(1) by (simp only: g sum.inject simp_thms ex_simps)
qed


text \<open>
  Claim C5.  A tick of an initialised simulation with a car returns, and in the state it
  returns the speed is the old speed moved by a tenth of its difference to the target
  speed (the target being the one cruise control has just set, when it is on), the
  position has advanced by \<open>carSpeed * delta * 20\<close> (with the new speed) along
  \<open>(sin heading, 0, cos heading)\<close> for the heading before the tick, and the distance has
  grown by the same step.  With speed and target speed 0.3 and \<open>delta = 0.05\<close> the step
  is 0.3.
\<close>

theorem tick_kinematics:
  assumes "car s \<noteq> None" and "initialized s" and "sensorsComplete s"
  shows "\<exists>s'. updateSimulation hit s delta = Inr s'
     \<and> targetSpeed s' = (if adaptiveCruiseActive s then regulate (frontReading (sensorReadings s)) 0.3
                         else targetSpeed s)
     \<and> carSpeed s' = carSpeed s + (targetSpeed s' - carSpeed s) * 0.1
     \<and> carPosition s' =
         \<lparr>x3 = x3 (carPosition s) + sin (carRotation s) * (carSpeed s' * delta * 20),
          y3 = y3 (carPosition s),
          z3 = z3 (carPosition s) + cos (carRotation s) * (carSpeed s' * delta * 20)\<rparr>
     \<and> distance s' = distance s + carSpeed s' * delta * 20
     \<and> (carSpeed s = 0.3 \<and> targetSpeed s' = 0.3 \<and> delta = 0.05 \<longrightarrow>
          carSpeed s' * delta * 20 = 0.3)"
proof -
  from updateSimulation_run [OF assms, of hit delta] obtain s' where
    s': "updateSimulation hit s delta = Inr s'"
      "targetSpeed s' = (if adaptiveCruiseActive s then regulate (frontReading (sensorReadings s)) 0.3
                         else targetSpeed s)"
      "carSpeed s' = carSpeed s + (targetSpeed s' - carSpeed s) * 0.1"
      "carPosition s' =
         \<lparr>x3 = x3 (carPosition s) + sin (carRotation s) * (carSpeed s' * delta * 20),
          y3 = y3 (carPosition s),
          z3 = z3 (carPosition s) + cos (carRotation s) * (carSpeed s' * delta * 20)\<rparr>"
      "distance s' = distance s + carSpeed s' * delta * 20"
    by blast
  have "carSpeed s' * delta * 20 = 0.3"
    if a: "carSpeed s = 0.3 \<and> targetSpeed s' = 0.3 \<and> delta = 0.05"
  proof -
    have d: "delta = 5 / 100" using a by simp
    have "carSpeed s' = carSpeed s + (targetSpeed s' - carSpeed s) * 0.1" by (rule s'(3))
    also have "\<dots> = 3 / 10" using a by simp
    finally show ?thesis by (simp add: d)
  qed
  with s' show ?thesis by blast
qed

theorem tick_kinematics_witness:
  "car tickState \<noteq> None \<and> initialized tickState \<and> sensorsComplete tickState
   \<and> carSpeed tickState = 0.3
   \<and> (\<exists>s'. updateSimulation (\<lambda>r ob. []) tickState 0.05 = Inr s'
        \<and> targetSpeed s' = 0.3 \<and> carSpeed s' = 0.3
        \<and> carPosition s' = \<lparr>x3 = 0, y3 = 0.5, z3 = 0.3\<rparr>
        \<and> distance s' = 0.3)"
proof -
  have h: "car tickState \<noteq> None" "initialized tickState" "sensorsComplete tickState"
    by (simp_all add: tickState_def initialState_def sensorsComplete_def)
  have v: "adaptiveCruiseActive tickState" "frontReading (sensorReadings tickState) = Infinity"
    "carSpeed tickState = 0.3" "carPosition tickState = \<lparr>x3 = 0, y3 = 0.5, z3 = 0\<rparr>"
    "carRotation tickState = 0" "distance tickState = 0"
    by (simp_all add: tickState_def initialState_def)
  from tick_kinematics [OF h, of "\<lambda>r ob. []" "0.05"] obtain s' where
    "updateSimulation (\<lambda>r ob. []) tickState 0.05 = Inr s'"
    "targetSpeed s' = 0.3" "carSpeed s' = 0.3"
    "carPosition s' = \<lparr>x3 = 0, y3 = 0.5, z3 = 0.3\<rparr>" "distance s' = 0.3"
    by (auto simp: regulate_def v)
  with h v(3) show ?thesis by blast
qed

section \<open>Road generation: the loops\<close>

lemma linked_snoc:
  assumes "linked L cs"
    and "cs \<noteq> [] \<longrightarrow>
           angle c = angle (last cs) + curvature (last cs)
           \<and> position c = \<lparr>px = px (position (last cs)) + sin (angle c) * L,
                            pz = pz (position (last cs)) + cos (angle c) * L\<rparr>"
  shows "linked L (cs @ [c])"
  unfolding linked_def
proof (intro allI impI)
  fix i assume i: "Suc i < length (cs @ [c])"
  show "angle ((cs @ [c]) ! Suc i) = angle ((cs @ [c]) ! i) + curvature ((cs @ [c]) ! i)
        \<and> position ((cs @ [c]) ! Suc i) =
            \<lparr>px = px (position ((cs @ [c]) ! i)) + sin (angle ((cs @ [c]) ! Suc i)) * L,
             pz = pz (position ((cs @ [c]) ! i)) + cos (angle ((cs @ [c]) ! Suc i)) * L\<rparr>"
  proof (cases "Suc i < length cs")
    case True
    then show ?thesis
      using assms(1) by (simp add: linked_def nth_append)
  next
    case False
    with i have e: "Suc i = length cs" by simp
    then have ne: "cs \<noteq> []" by auto
    have l: "last cs = cs ! i"
      using e ne by (metis diff_Suc_1 last_conv_nth)
    show ?thesis
      using assms(2) ne e l by (simp add: nth_append)
  qed
qed

lemma roadCurvesLoop_done:
  "\<not> i < segments \<Longrightarrow> roadCurvesLoop segments L i X Z A s = s"
  by (subst roadCurvesLoop.simps) simp

lemma roadCurvesLoop_step:
  "i < segments \<Longrightarrow>
   roadCurvesLoop segments L i X Z A s =
     roadCurvesLoop segments L (Suc i)
       (X + sin (A + nextCurvature i s) * L) (Z + cos (A + nextCurvature i s) * L)
       (A + nextCurvature i s) (pushCurve i X Z A s)"
  by (subst roadCurvesLoop.simps) (simp add: Let_def Math_random_def nextCurvature_def pushCurve_def)

lemma pushCurve_fields:
  "roadCurves (pushCurve i X Z A s) =
     roadCurves s @ [\<lparr>position = \<lparr>px = X, pz = Z\<rparr>, angle = A, curvature = nextCurvature i s\<rparr>]"
  "(pushCurve i X Z A s)\<lparr>roadCurves := cs, randomCalls := n\<rparr> = s\<lparr>roadCurves := cs, randomCalls := n\<rparr>"
  by (simp_all add: pushCurve_def)

lemma roadCurvesLoop_shape:
  "\<exists>cs n. roadCurvesLoop segments L i X Z A s = s\<lparr>roadCurves := cs, randomCalls := n\<rparr>"
proof (induction "segments - i" arbitrary: i X Z A s)
  case 0
  then have "roadCurvesLoop segments L i X Z A s = s\<lparr>roadCurves := roadCurves s, randomCalls := randomCalls s\<rparr>"
    by (simp add: roadCurvesLoop_done)
  then show ?case by blast
next
  case (Suc k)
  then have i: "i < segments" and k: "k = segments - Suc i" by simp_all
  from Suc.hyps(1) [OF k] obtain cs n where
    "roadCurvesLoop segments L (Suc i)
       (X + sin (A + nextCurvature i s) * L) (Z + cos (A + nextCurvature i s) * L)
       (A + nextCurvature i s) (pushCurve i X Z A s)
     = (pushCurve i X Z A s)\<lparr>roadCurves := cs, randomCalls := n\<rparr>"
    by blast
  then have "roadCurvesLoop segments L i X Z A s = s\<lparr>roadCurves := cs, randomCalls := n\<rparr>"
    unfolding roadCurvesLoop_step [OF i] pushCurve_fields(2) .
  then show ?case by blast
qed

lemma roadCurvesLoop_length:
  "length (roadCurves (roadCurvesLoop segments L i X Z A s)) = length (roadCurves s) + (segments - i)"
proof (induction "segments - i" arbitrary: i X Z A s)
  case 0
  then show ?case by (simp add: roadCurvesLoop_done)
next
  case (Suc k)
  then have i: "i < segments" and k: "k = segments - Suc i" by simp_all
  show ?case
    unfolding roadCurvesLoop_step [OF i] Suc.hyps(1) [OF k] pushCurve_fields(1)
    using i by simp
qed

lemma roadCurvesLoop_linked:
  assumes "linked L (roadCurves s)"
    and "roadCurves s \<noteq> [] \<longrightarrow>
           A = angle (last (roadCurves s)) + curvature (last (roadCurves s))
           \<and> X = px (position (last (roadCurves s))) + sin A * L
           \<and> Z = pz (position (last (roadCurves s))) + cos A * L"
  shows "linked L (roadCurves (roadCurvesLoop segments L i X Z A s))"
  using assms
proof (induction "segments - i" arbitrary: i X Z A s)
  case 0
  then show ?case by (simp add: roadCurvesLoop_done)
next
  case (Suc k)
  then have i: "i < segments" and k: "k = segments - Suc i" by simp_all
  have l: "linked L (roadCurves (pushCurve i X Z A s))"
    unfolding pushCurve_fields(1) using Suc.prems by (simp add: linked_snoc)
  have "linked L (roadCurves (roadCurvesLoop segments L (Suc i)
       (X + sin (A + nextCurvature i s) * L) (Z + cos (A + nextCurvature i s) * L)
       (A + nextCurvature i s) (pushCurve i X Z A s)))"
    by (rule Suc.hyps(1) [OF k l]) (simp add: pushCurve_fields(1))
  then show ?case
    unfolding roadCurvesLoop_step [OF i] .
qed

lemma obstaclesLoop_done:
  "\<not> i < segments \<Longrightarrow> obstaclesLoop segments i s = s"
  by (subst obstaclesLoop.simps) simp

lemma obstaclesLoop_step:
  "i < segments \<Longrightarrow> obstaclesLoop segments i s = obstaclesLoop segments (Suc i) (placeOrSkip i s)"
  by (subst obstaclesLoop.simps) (simp add: Let_def Math_random_def placedObstacle_def placeOrSkip_def)

lemma placeOrSkip_fields:
  "(placeOrSkip i s)\<lparr>obstacles := obs, randomCalls := n\<rparr> = s\<lparr>obstacles := obs, randomCalls := n\<rparr>"
  "roadCurves (placeOrSkip i s) = roadCurves s"
  "roadWidth (placeOrSkip i s) = roadWidth s"
  by (simp_all add: placeOrSkip_def)

lemma obstaclesLoop_shape:
  "\<exists>obs n. obstaclesLoop segments i s = s\<lparr>obstacles := obs, randomCalls := n\<rparr>"
proof (induction "segments - i" arbitrary: i s)
  case 0
  then have "obstaclesLoop segments i s = s\<lparr>obstacles := obstacles s, randomCalls := randomCalls s\<rparr>"
    by (simp add: obstaclesLoop_done)
  then show ?case by blast
next
  case (Suc k)
  then have i: "i < segments" and k: "k = segments - Suc i" by simp_all
  from Suc.hyps(1) [OF k] obtain obs n where
    "obstaclesLoop segments (Suc i) (placeOrSkip i s) = (placeOrSkip i s)\<lparr>obstacles := obs, randomCalls := n\<rparr>"
    by blast
  then have "obstaclesLoop segments i s = s\<lparr>obstacles := obs, randomCalls := n\<rparr>"
    unfolding obstaclesLoop_step [OF i] placeOrSkip_fields(1) .
  then show ?case by blast
qed

lemma generateRoad_shape:
  "\<exists>cs obs n. generateRoad s =
     s\<lparr>roadCurves := cs, obstacles := obs, randomCalls := n,
       carPosition := \<lparr>x3 = 0, y3 = 0.5, z3 = 0\<rparr>, carRotation := 0,
       car := map_option (\<lambda>c. c\<lparr>position3 := \<lparr>x3 = 0, y3 = 0.5, z3 = 0\<rparr>, rotation_y := 0\<rparr>) (car s),
       distance := 0, distanceState := 0, speedState := 0\<rparr>
     \<and> length cs = 20 \<and> linked (roadLength s / 20) cs"
proof -
  define s0 where "s0 = s\<lparr>obstacles := [], roadCurves := []\<rparr>"
  define L where "L = roadLength s / 20"
  define s1 where "s1 = roadCurvesLoop 20 L 0 0 0 0 s0"
  define s2 where "s2 = obstaclesLoop 20 0 s1"
  have g: "generateRoad s =
     s2\<lparr>carPosition := \<lparr>x3 = 0, y3 = 0.5, z3 = 0\<rparr>, carRotation := 0,
        car := map_option (\<lambda>c. c\<lparr>position3 := \<lparr>x3 = 0, y3 = 0.5, z3 = 0\<rparr>, rotation_y := 0\<rparr>) (car s2),
        distance := 0, distanceState := 0, speedState := 0\<rparr>"
    by (simp add: generateRoad_def Let_def s2_def s1_def s0_def L_def)
  obtain cs n where 1: "s1 = s0\<lparr>roadCurves := cs, randomCalls := n\<rparr>"
    unfolding s1_def using roadCurvesLoop_shape by blast
  have "length (roadCurves s1) = 20"
    unfolding s1_def roadCurvesLoop_length by (simp add: s0_def)
  then have len: "length cs = 20"
    by (simp add: 1)
  have "linked L (roadCurves s1)"
    unfolding s1_def by (rule roadCurvesLoop_linked) (simp_all add: s0_def linked_def)
  then have lk: "linked L cs"
    by (simp add: 1)
  obtain obs m where 2: "s2 = s1\<lparr>obstacles := obs, randomCalls := m\<rparr>"
    unfolding s2_def using obstaclesLoop_shape by blast
  have "generateRoad s =
     s\<lparr>roadCurves := cs, obstacles := obs, randomCalls := m,
       carPosition := \<lparr>x3 = 0, y3 = 0.5, z3 = 0\<rparr>, carRotation := 0,
       car := map_option (\<lambda>c. c\<lparr>position3 := \<lparr>x3 = 0, y3 = 0.5, z3 = 0\<rparr>, rotation_y := 0\<rparr>) (car s),
       distance := 0, distanceState := 0, speedState := 0\<rparr>"
    unfolding g 2 1 s0_def by simp
  with len lk show ?thesis unfolding L_def by blast
qed


lemma example_generateRoad:
  "roadCurves (generateRoad (initialState exampleRandom)) ! 0
     = \<lparr>position = \<lparr>px = 0, pz = 0\<rparr>, angle = 0, curvature = 0\<rparr>"
  "roadCurves (generateRoad (initialState exampleRandom)) ! 4
     = \<lparr>position = \<lparr>px = 0, pz = 100\<rparr>, angle = 0, curvature = 0\<rparr>"
  "obstacles (generateRoad (initialState exampleRandom))
     = [\<lparr>position3 = \<lparr>x3 = 0, y3 = 0, z3 = 97\<rparr>, rotation_y = 0\<rparr>]"
    apply (simp_all add: generateRoad_def initialState_def Let_def)
    apply (simp_all add: roadCurvesLoop_step roadCurvesLoop_done pushCurve_def nextCurvature_def
      exampleRandom_def)
    apply (simp_all add: obstaclesLoop_step obstaclesLoop_done placeOrSkip_def placedObstacle_def
      exampleRandom_def)
  done

section \<open>Road generation: headings and positions\<close>

text \<open>
  Claim C6.  A generated road has 20 segments, and for every index \<open>i\<close> with a next
  segment, the heading of segment \<open>i + 1\<close> is the heading of segment \<open>i\<close> plus the
  curvature of segment \<open>i\<close>, and the position of segment \<open>i + 1\<close> is the position of
  segment \<open>i\<close> advanced by the segment length \<open>roadLength / 20\<close> along the heading just
  accumulated, the heading of segment \<open>i + 1\<close>.
\<close>

theorem road_heading_and_position:
  "let cs = roadCurves (generateRoad s); L = roadLength s / 20
   in length cs = 20
      \<and> (\<forall>i. Suc i < length cs \<longrightarrow>
            angle (cs ! Suc i) = angle (cs ! i) + curvature (cs ! i)
            \<and> position (cs ! Suc i) =
                \<lparr>px = px (position (cs ! i)) + sin (angle (cs ! Suc i)) * L,
                 pz = pz (position (cs ! i)) + cos (angle (cs ! Suc i)) * L\<rparr>)"
proof -
  obtain cs obs n where
    g: "generateRoad s =
     s\<lparr>roadCurves := cs, obstacles := obs, randomCalls := n,
       carPosition := \<lparr>x3 = 0, y3 = 0.5, z3 = 0\<rparr>, carRotation := 0,
       car := map_option (\<lambda>c. c\<lparr>position3 := \<lparr>x3 = 0, y3 = 0.5, z3 = 0\<rparr>, rotation_y := 0\<rparr>) (car s),
       distance := 0, distanceState := 0, speedState := 0\<rparr>"
    and len: "length cs = 20" and lk: "linked (roadLength s / 20) cs"
    using generateRoad_shape by blast
  have "roadCurves (generateRoad s) = cs"
    by (simp add: g)
  then show ?thesis
    using len lk by (simp add: Let_def linked_def)
qed

theorem road_heading_and_position_witness:
  "Suc 0 < length (roadCurves (generateRoad (initialState exampleRandom)))
   \<and> angle (roadCurves (generateRoad (initialState exampleRandom)) ! Suc 0) = 0
   \<and> position (roadCurves (generateRoad (initialState exampleRandom)) ! Suc 0)
       = \<lparr>px = 0, pz = 25\<rparr>"
proof -
  have L: "roadLength (initialState exampleRandom) / 20 = 25"
    by (simp add: initialState_def)
  show ?thesis
    using road_heading_and_position [of "initialState exampleRandom"]
    unfolding Let_def L
    by (simp add: example_generateRoad(1))
qed

section \<open>Obstacle placement\<close>

lemma placedObstacle_obstacleAt:
  "placedObstacle i s = obstacleAt (roadCurves s ! i) (roadWidth s / 4)
   \<or> placedObstacle i s = obstacleAt (roadCurves s ! i) (- (roadWidth s / 4))"
  by (simp add: placedObstacle_def obstacleAt_def Let_def)

lemma obstacleAt_components:
  "alongComponent c (position3 (obstacleAt c laneOffset)) = laneOffset"
  "lateralComponent c (position3 (obstacleAt c laneOffset)) = 0"
  "rotation_y (obstacleAt c laneOffset) = angle c"
proof -
  have one: "sin (angle c) * sin (angle c) + cos (angle c) * cos (angle c) = 1"
    using sin_cos_squared_add [of "angle c"] by (simp add: power2_eq_square)
  have "sin (angle c) * laneOffset * sin (angle c) + cos (angle c) * laneOffset * cos (angle c)
        = laneOffset * (sin (angle c) * sin (angle c) + cos (angle c) * cos (angle c))"
    by (simp only: distrib_left mult.assoc mult.left_commute mult.commute)
  also have "\<dots> = laneOffset"
    by (simp only: one mult_1_right)
  finally show "alongComponent c (position3 (obstacleAt c laneOffset)) = laneOffset"
    by (simp add: alongComponent_def obstacleAt_def)
  show "lateralComponent c (position3 (obstacleAt c laneOffset)) = 0"
    by (simp add: lateralComponent_def obstacleAt_def)
  show "rotation_y (obstacleAt c laneOffset) = angle c"
    by (simp add: obstacleAt_def)
qed

lemma obstaclesLoop_obstacles:
  assumes "ob \<in> set (obstacles (obstaclesLoop segments i s))"
  shows "ob \<in> set (obstacles s)
     \<or> (\<exists>j. i \<le> j \<and> j < segments \<and> 3 < j
            \<and> (ob = obstacleAt (roadCurves s ! j) (roadWidth s / 4)
               \<or> ob = obstacleAt (roadCurves s ! j) (- (roadWidth s / 4))))"
  using assms
proof (induction "segments - i" arbitrary: i s)
  case 0
  then show ?case by (simp add: obstaclesLoop_done)
next
  case (Suc k)
  then have i: "i < segments" and k: "k = segments - Suc i" by simp_all
  let ?s = "placeOrSkip i s"
  from Suc.prems have "ob \<in> set (obstacles (obstaclesLoop segments (Suc i) ?s))"
    unfolding obstaclesLoop_step [OF i] .
  from Suc.hyps(1) [OF k this]
  consider (old) "ob \<in> set (obstacles ?s)"
    | (later) j where "Suc i \<le> j" "j < segments" "3 < j"
        "ob = obstacleAt (roadCurves s ! j) (roadWidth s / 4)
         \<or> ob = obstacleAt (roadCurves s ! j) (- (roadWidth s / 4))"
    unfolding placeOrSkip_fields by blast
  then show ?case
  proof cases
    case old
    then have "ob \<in> set (obstacles s) \<or> (3 < i \<and> ob = placedObstacle i s)"
      by (auto simp: placeOrSkip_def split: if_splits)
    then show ?thesis
      using i placedObstacle_obstacleAt [of i s] by (metis le_refl)
  next
    case later
    then show ?thesis
      by (metis Suc_leD)
  qed
qed

lemma generateRoad_obstacles:
  assumes "ob \<in> set (obstacles (generateRoad s))"
  shows "\<exists>j. 3 < j \<and> j < 20
            \<and> (ob = obstacleAt (roadCurves (generateRoad s) ! j) (roadWidth s / 4)
               \<or> ob = obstacleAt (roadCurves (generateRoad s) ! j) (- (roadWidth s / 4)))"
proof -
  define s0 where "s0 = s\<lparr>obstacles := [], roadCurves := []\<rparr>"
  define L where "L = roadLength s / 20"
  define s1 where "s1 = roadCurvesLoop 20 L 0 0 0 0 s0"
  define s2 where "s2 = obstaclesLoop 20 0 s1"
  have g: "generateRoad s =
     s2\<lparr>carPosition := \<lparr>x3 = 0, y3 = 0.5, z3 = 0\<rparr>, carRotation := 0,
        car := map_option (\<lambda>c. c\<lparr>position3 := \<lparr>x3 = 0, y3 = 0.5, z3 = 0\<rparr>, rotation_y := 0\<rparr>) (car s2),
        distance := 0, distanceState := 0, speedState := 0\<rparr>"
    by (simp add: generateRoad_def Let_def s2_def s1_def s0_def L_def)
  obtain cs n where 1: "s1 = s0\<lparr>roadCurves := cs, randomCalls := n\<rparr>"
    unfolding s1_def using roadCurvesLoop_shape by blast
  obtain obs m where 2: "s2 = s1\<lparr>obstacles := obs, randomCalls := m\<rparr>"
    unfolding s2_def using obstaclesLoop_shape by blast
  have f: "obstacles s1 = []" "roadWidth s1 = roadWidth s" "roadCurves (generateRoad s) = roadCurves s1"
    "obstacles (generateRoad s) = obstacles s2"
    by (simp_all add: g 2 1 s0_def)
  from assms have "ob \<in> set (obstacles (obstaclesLoop 20 0 s1))"
    by (simp add: f(4) s2_def)
  from obstaclesLoop_obstacles [OF this] show ?thesis
    unfolding f by auto
qed

text \<open>
  Claim C3.  With a straight road and one obstacle drawn for segment 4, which starts at
  \<open>(0, 100)\<close> with heading 0, \<open>generateRoad\<close> puts the obstacle at \<open>(0, 0, 97)\<close>: three
  units back along the heading of the segment, with no lateral offset at all.  By
  \<open>generateRoad_obstacles\<close> and \<open>obstacleAt_components\<close> this is so for every obstacle
  of every road: it lies on a segment beyond the first four and carries the heading of
  that segment, but its offset of a quarter of the road width runs along the heading,
  not across it.
\<close>

theorem obstacle_offset_along_heading:
  "let s = generateRoad (initialState exampleRandom); c = roadCurves s ! 4
   in position c = \<lparr>px = 0, pz = 100\<rparr> \<and> angle c = 0
      \<and> obstacles s = [\<lparr>position3 = \<lparr>x3 = 0, y3 = 0, z3 = 97\<rparr>, rotation_y = 0\<rparr>]
      \<and> lateralComponent c \<lparr>x3 = 0, y3 = 0, z3 = 97\<rparr> = 0
      \<and> alongComponent c \<lparr>x3 = 0, y3 = 0, z3 = 97\<rparr> = - 3"
  by (simp add: Let_def example_generateRoad lateralComponent_def alongComponent_def)

section \<open>Sensors: the nearest hit\<close>

lemma firstDistance_sort: "firstDistance (sort xs) = nearestHit xs"
proof (cases "sort xs")
  case Nil
  then have "set (sort xs) = {}" by simp
  then have "xs = []" by simp
  then show ?thesis by (simp add: firstDistance_def nearestHit_def)
next
  case (Cons d rest)
  have "sorted (sort xs)" by simp
  then have le: "\<forall>y\<in>set rest. d \<le> y" by (simp add: Cons)
  have s: "set xs = set (d # rest)"
    using Cons by (metis set_sort)
  then have ne: "xs \<noteq> []" by auto
  have "Min (set xs) = d"
    unfolding s using le by (intro Min_eqI) auto
  then show ?thesis
    using ne by (simp add: firstDistance_def nearestHit_def Cons)
qed

text \<open>
  Claim C7.  With a car and its three sensors, \<open>updateSensors\<close> returns, and each of the
  front, left and right readings is the least distance among all hits of the ray of
  that sensor on the obstacles, and \<open>Infinity\<close> when the ray hits nothing; with no
  obstacles all three readings are \<open>Infinity\<close>.
\<close>

theorem sensor_readings_nearest:
  assumes "car s = Some c" and "front (sensors s) = Some f"
    and "left (sensors s) = Some l" and "right (sensors s) = Some r"
  shows "\<exists>s'. updateSensors hit s = Inr s'
     \<and> frontReading (sensorReadings s') =
         nearestHit (hitDistances hit (sensorRay c f \<lparr>x3 = 0, y3 = 0, z3 = 1\<rparr>) (obstacles s))
     \<and> leftReading (sensorReadings s') =
         nearestHit (hitDistances hit (sensorRay c l \<lparr>x3 = - 1, y3 = 0, z3 = 0\<rparr>) (obstacles s))
     \<and> rightReading (sensorReadings s') =
         nearestHit (hitDistances hit (sensorRay c r \<lparr>x3 = 1, y3 = 0, z3 = 0\<rparr>) (obstacles s))
     \<and> (obstacles s = [] \<longrightarrow>
          sensorReadings s' = \<lparr>frontReading = Infinity, leftReading = Infinity, rightReading = Infinity\<rparr>)"
  using assms
  by (simp add: updateSensors_def Let_def intersectObjects_def firstDistance_sort
        hitDistances_def [symmetric])
     (simp add: hitDistances_def nearestHit_def)


theorem sensor_readings_nearest_witness:
  "car sensorState = Some \<lparr>position3 = \<lparr>x3 = 0, y3 = 0.5, z3 = 0\<rparr>, rotation_y = 0\<rparr>
   \<and> front (sensors sensorState) = Some \<lparr>x3 = 0, y3 = 0.5, z3 = 2\<rparr>
   \<and> left (sensors sensorState) = Some \<lparr>x3 = - 1, y3 = 0.5, z3 = 0\<rparr>
   \<and> right (sensors sensorState) = Some \<lparr>x3 = 1, y3 = 0.5, z3 = 0\<rparr>
   \<and> (\<exists>s'. updateSensors exampleHit sensorState = Inr s'
         \<and> sensorReadings s' =
             \<lparr>frontReading = Finite 6, leftReading = Infinity, rightReading = Infinity\<rparr>)"
proof -
  let ?c = "\<lparr>position3 = \<lparr>x3 = 0, y3 = 0.5, z3 = 0\<rparr>, rotation_y = 0\<rparr>"
  have h: "car sensorState = Some ?c"
    "front (sensors sensorState) = Some \<lparr>x3 = 0, y3 = 0.5, z3 = 2\<rparr>"
    "left (sensors sensorState) = Some \<lparr>x3 = - 1, y3 = 0.5, z3 = 0\<rparr>"
    "right (sensors sensorState) = Some \<lparr>x3 = 1, y3 = 0.5, z3 = 0\<rparr>"
    by (simp_all add: sensorState_def setupCar_def initialState_def)
  have rays:
    "sensorRay ?c \<lparr>x3 = 0, y3 = 0.5, z3 = 2\<rparr> \<lparr>x3 = 0, y3 = 0, z3 = 1\<rparr>
       = \<lparr>origin = \<lparr>x3 = 0, y3 = 1, z3 = 2\<rparr>, direction = \<lparr>x3 = 0, y3 = 0, z3 = 1\<rparr>\<rparr>"
    "sensorRay ?c \<lparr>x3 = - 1, y3 = 0.5, z3 = 0\<rparr> \<lparr>x3 = - 1, y3 = 0, z3 = 0\<rparr>
       = \<lparr>origin = \<lparr>x3 = - 1, y3 = 1, z3 = 0\<rparr>, direction = \<lparr>x3 = - 1, y3 = 0, z3 = 0\<rparr>\<rparr>"
    "sensorRay ?c \<lparr>x3 = 1, y3 = 0.5, z3 = 0\<rparr> \<lparr>x3 = 1, y3 = 0, z3 = 0\<rparr>
       = \<lparr>origin = \<lparr>x3 = 1, y3 = 1, z3 = 0\<rparr>, direction = \<lparr>x3 = 1, y3 = 0, z3 = 0\<rparr>\<rparr>"
    by (simp_all add: sensorRay_def getWorldPosition_def normalize_def applyQuaternion_def
          quaternion_of_def setFromAxisAngle_def Let_def)
  have obs: "obstacles sensorState =
      [\<lparr>position3 = \<lparr>x3 = 0, y3 = 0, z3 = 10\<rparr>, rotation_y = 0\<rparr>,
       \<lparr>position3 = \<lparr>x3 = 0, y3 = 0, z3 = 20\<rparr>, rotation_y = 0\<rparr>]"
    by (simp add: sensorState_def)
  from sensor_readings_nearest [OF h, of exampleHit] obtain s' where
    s': "updateSensors exampleHit sensorState = Inr s'"
      "frontReading (sensorReadings s') = Finite 6"
      "leftReading (sensorReadings s') = Infinity"
      "rightReading (sensorReadings s') = Infinity"
    unfolding rays obs by (auto simp: hitDistances_def nearestHit_def exampleHit_def)
  have "sensorReadings s' = \<lparr>frontReading = Finite 6, leftReading = Infinity, rightReading = Infinity\<rparr>"
    using s'(2-4) by (cases "sensorReadings s'") simp
  with h s'(1) show ?thesis by blast
qed

section \<open>The end of the road\<close>

lemma frames_snoc:
  "frames hit s (deltas @ [delta]) =
     (case frames hit s deltas of Inl e \<Rightarrow> Inl e | Inr s' \<Rightarrow> animate hit s' delta)"
  by (induction deltas arbitrary: s) (auto split: sum.splits)

lemma all_prefixes_snoc:
  "(\<forall>k. 0 < k \<and> k \<le> length (ds @ [d]) \<longrightarrow> Q (take k (ds @ [d])))
   = ((\<forall>k. 0 < k \<and> k \<le> length ds \<longrightarrow> Q (take k ds)) \<and> Q (ds @ [d]))"
proof -
  have "(\<forall>k. 0 < k \<and> k \<le> length (ds @ [d]) \<longrightarrow> Q (take k (ds @ [d])))
     = (\<forall>k. 0 < k \<and> (k \<le> length ds \<or> k = Suc (length ds)) \<longrightarrow> Q (take k (ds @ [d])))"
    by (simp add: le_Suc_eq)
  also have "\<dots> = ((\<forall>k. 0 < k \<and> k \<le> length ds \<longrightarrow> Q (take k (ds @ [d])))
                      \<and> Q (take (Suc (length ds)) (ds @ [d])))"
    by auto
  also have "\<dots> = ((\<forall>k. 0 < k \<and> k \<le> length ds \<longrightarrow> Q (take k ds)) \<and> Q (ds @ [d]))"
    by simp
  finally show ?thesis .
qed

lemma frames_run:
  assumes "isSimulationRunning s" and "car s \<noteq> None" and "initialized s" and "sensorsComplete s"
  shows "\<exists>s'. frames hit s deltas = Inr s'
     \<and> car s' \<noteq> None \<and> initialized s' \<and> sensorsComplete s' \<and> roadLength s' = roadLength s
     \<and> (isSimulationRunning s' =
          (\<forall>k. 0 < k \<and> k \<le> length deltas \<longrightarrow>
             (\<exists>sk. frames hit s (take k deltas) = Inr sk \<and> distance sk \<le> roadLength s)))"
proof (induction deltas rule: rev_induct)
  case Nil
  then show ?case using assms by simp
next
  case (snoc delta deltas)
  let ?Q = "\<lambda>ds. \<exists>sk. frames hit s ds = Inr sk \<and> distance sk \<le> roadLength s"
  from snoc obtain s1 where
    s1: "frames hit s deltas = Inr s1" "car s1 \<noteq> None" "initialized s1" "sensorsComplete s1"
      "roadLength s1 = roadLength s"
      "isSimulationRunning s1 = (\<forall>k. 0 < k \<and> k \<le> length deltas \<longrightarrow> ?Q (take k deltas))"
    by blast
  have f: "frames hit s (deltas @ [delta]) = animate hit s1 delta"
    by (simp add: frames_snoc s1(1))
  show ?case
  proof (cases "isSimulationRunning s1")
    case True
    from updateSimulation_run [OF s1(2-4), of hit delta] obtain s2 where
      s2: "updateSimulation hit s1 delta = Inr s2" "roadLength s2 = roadLength s1"
        "car s2 \<noteq> None" "initialized s2" "sensorsComplete s2"
        "isSimulationRunning s2 = (isSimulationRunning s1 \<and> \<not> distance s2 > roadLength s2)"
      by blast
    have a: "frames hit s (deltas @ [delta]) = Inr s2"
      by (simp add: f animate_def True s2(1))
    have q: "?Q (deltas @ [delta]) = (distance s2 \<le> roadLength s)"
      by (simp add: a)
    have "isSimulationRunning s2 =
        (\<forall>k. 0 < k \<and> k \<le> length (deltas @ [delta]) \<longrightarrow> ?Q (take k (deltas @ [delta])))"
      unfolding all_prefixes_snoc [of deltas delta ?Q] q s1(6) [symmetric]
      using s2(6) True by (auto simp: s2(2) s1(5))
    with a s2 s1(5) show ?thesis by auto
  next
    case False
    have a: "frames hit s (deltas @ [delta]) = Inr s1"
      by (simp add: f animate_def False)
    have "isSimulationRunning s1 =
        (\<forall>k. 0 < k \<and> k \<le> length (deltas @ [delta]) \<longrightarrow> ?Q (take k (deltas @ [delta])))"
      unfolding all_prefixes_snoc [of deltas delta ?Q] s1(6) [symmetric]
      using False by simp
    with a s1 show ?thesis by auto
  qed
qed


text \<open>
  Claim C4.  A run of frames that starts in a running, initialised simulation returns,
  and after it the simulation is still running exactly when no frame of the run has left
  the accumulated distance above the road length: it stops at the first frame whose
  accumulated distance exceeds the road length, and at no frame before.
\<close>

theorem stops_when_distance_exceeds:
  assumes "isSimulationRunning s" and "car s \<noteq> None" and "initialized s" and "sensorsComplete s"
  shows "\<exists>s'. frames hit s deltas = Inr s'
     \<and> (isSimulationRunning s' =
          (\<forall>k. 0 < k \<and> k \<le> length deltas \<longrightarrow>
             (\<exists>sk. frames hit s (take k deltas) = Inr sk \<and> distance sk \<le> roadLength s)))"
  using frames_run [OF assms, of hit deltas] by blast

theorem stops_when_distance_exceeds_witness:
  "isSimulationRunning runState \<and> car runState \<noteq> None \<and> initialized runState
   \<and> sensorsComplete runState \<and> roadLength runState = 500
   \<and> (\<exists>s'. frames (\<lambda>r ob. []) runState [1] = Inr s' \<and> distance s' = 6 \<and> isSimulationRunning s')
   \<and> (\<exists>s'. frames (\<lambda>r ob. []) runState [100] = Inr s' \<and> distance s' = 600
          \<and> \<not> isSimulationRunning s')"
proof -
  let ?hit = "(\<lambda>r ob. []) :: ray \<Rightarrow> object3d \<Rightarrow> real list"
  have h: "isSimulationRunning runState" "car runState \<noteq> None" "initialized runState"
    "sensorsComplete runState"
    by (simp_all add: runState_def tickState_def initialState_def sensorsComplete_def)
  have v: "adaptiveCruiseActive runState" "frontReading (sensorReadings runState) = Infinity"
    "carSpeed runState = 0.3" "distance runState = 0" "roadLength runState = 500"
    by (simp_all add: runState_def tickState_def initialState_def)
  have tick: "\<exists>s'. frames ?hit runState [delta] = Inr s' \<and> distance s' = 6 * delta
      \<and> (isSimulationRunning s' = (6 * delta \<le> 500))" for delta
  proof -
    from updateSimulation_run [OF h(2-4), of ?hit delta] obtain s1 where
      s1: "updateSimulation ?hit runState delta = Inr s1" "distance s1 = 6 * delta"
      by (auto simp: v regulate_def)
    have f: "frames ?hit runState [delta] = Inr s1"
      by (simp add: animate_def h(1) s1(1))
    from stops_when_distance_exceeds [OF h, of ?hit "[delta]"]
    have r: "isSimulationRunning s1 =
          (\<forall>k. 0 < k \<and> k \<le> length [delta] \<longrightarrow>
             (\<exists>sk. frames ?hit runState (take k [delta]) = Inr sk \<and> distance sk \<le> roadLength runState))"
      unfolding f by simp
    have "(\<forall>k. 0 < k \<and> k \<le> length [delta] \<longrightarrow>
             (\<exists>sk. frames ?hit runState (take k [delta]) = Inr sk \<and> distance sk \<le> roadLength runState))
          = (6 * delta \<le> 500)"
    proof
      assume a: "\<forall>k. 0 < k \<and> k \<le> length [delta] \<longrightarrow>
             (\<exists>sk. frames ?hit runState (take k [delta]) = Inr sk \<and> distance sk \<le> roadLength runState)"
      have "0 < (1::nat) \<and> (1::nat) \<le> length [delta]" by simp
      with a have "\<exists>sk. frames ?hit runState (take 1 [delta]) = Inr sk \<and> distance sk \<le> roadLength runState"
        by blast
      then show "6 * delta \<le> 500"
        using f s1(2) v(5) by simp
    next
      assume b: "6 * delta \<le> 500"
      show "\<forall>k. 0 < k \<and> k \<le> length [delta] \<longrightarrow>
             (\<exists>sk. frames ?hit runState (take k [delta]) = Inr sk \<and> distance sk \<le> roadLength runState)"
      proof (intro allI impI)
        fix k :: nat assume "0 < k \<and> k \<le> length [delta]"
        then have "k = 1" by simp
        then show "\<exists>sk. frames ?hit runState (take k [delta]) = Inr sk \<and> distance sk \<le> roadLength runState"
          using f s1(2) v(5) b by simp
      qed
    qed
    with r f s1(2) show ?thesis by simp
  qed
  from tick [of 1] tick [of 100] h v(5) show ?thesis
    by simp
qed

section \<open>Reachable states\<close>

lemma generateRoad_fields:
  "length (roadCurves (generateRoad s)) = 20"
  "(car (generateRoad s) = None) = (car s = None)"
  "sensors (generateRoad s) = sensors s"
  "carSpeed (generateRoad s) = carSpeed s"
  "targetSpeed (generateRoad s) = targetSpeed s"
  "initialized (generateRoad s) = initialized s"
  "isSimulationRunning (generateRoad s) = isSimulationRunning s"
  "distance (generateRoad s) = 0"
  "distanceState (generateRoad s) = 0"
  "speedState (generateRoad s) = 0"
  "carPosition (generateRoad s) = \<lparr>x3 = 0, y3 = 0.5, z3 = 0\<rparr>"
  "carRotation (generateRoad s) = 0"
  "roadLength (generateRoad s) = roadLength s"
proof -
  obtain cs obs n where
    g: "generateRoad s =
     s\<lparr>roadCurves := cs, obstacles := obs, randomCalls := n,
       carPosition := \<lparr>x3 = 0, y3 = 0.5, z3 = 0\<rparr>, carRotation := 0,
       car := map_option (\<lambda>c. c\<lparr>position3 := \<lparr>x3 = 0, y3 = 0.5, z3 = 0\<rparr>, rotation_y := 0\<rparr>) (car s),
       distance := 0, distanceState := 0, speedState := 0\<rparr>"
    and len: "length cs = 20"
    using generateRoad_shape by blast
  show "length (roadCurves (generateRoad s)) = 20"
    "(car (generateRoad s) = None) = (car s = None)"
    "sensors (generateRoad s) = sensors s"
    "carSpeed (generateRoad s) = carSpeed s"
    "targetSpeed (generateRoad s) = targetSpeed s"
    "initialized (generateRoad s) = initialized s"
    "isSimulationRunning (generateRoad s) = isSimulationRunning s"
    "distance (generateRoad s) = 0"
    "distanceState (generateRoad s) = 0"
    "speedState (generateRoad s) = 0"
    "carPosition (generateRoad s) = \<lparr>x3 = 0, y3 = 0.5, z3 = 0\<rparr>"
    "carRotation (generateRoad s) = 0"
    "roadLength (generateRoad s) = roadLength s"
    by (simp_all add: g len)
qed

lemma regulate_range: "0.03 \<le> regulate r 0.3 \<and> regulate r 0.3 \<le> 0.3"
  by (cases r) (auto simp: regulate_def max_def)

lemma generateRoad_nonempty: "roadCurves (generateRoad s) \<noteq> []"
  using generateRoad_fields(1) [of s] by auto

lemma invariant_generateRoad: "invariant s \<Longrightarrow> invariant (generateRoad s)"
  by (simp add: invariant_def sensorsComplete_def generateRoad_fields generateRoad_nonempty)

lemma invariant_initScene: "invariant s \<Longrightarrow> invariant (initScene s)"
  by (simp add: invariant_def sensorsComplete_def initScene_def generateRoad_fields
        generateRoad_nonempty)
     (simp add: setupCar_def)

lemma invariant_flags [simp]:
  "invariant (s\<lparr>isSimulationRunning := b\<rparr>) = invariant s"
  "invariant (s\<lparr>laneKeepingActive := b\<rparr>) = invariant s"
  "invariant (s\<lparr>adaptiveCruiseActive := b\<rparr>) = invariant s"
  by (simp_all add: invariant_def sensorsComplete_def)

lemma invariant_animate:
  assumes "invariant s" and "animate hit s delta = Inr s'"
  shows "invariant s'"
proof (cases "isSimulationRunning s \<and> car s \<noteq> None \<and> initialized s")
  case False
  then have "s' = s"
    using assms(2) by (auto simp: animate_def updateSimulation_def split: if_splits)
  then show ?thesis using assms(1) by simp
next
  case True
  have sc: "sensorsComplete s" using assms(1) by (simp add: invariant_def)
  from True have c: "car s \<noteq> None" and i: "initialized s" by simp_all
  from updateSimulation_run [OF c i sc, of hit delta] obtain s1 where
    s1: "updateSimulation hit s delta = Inr s1"
      "targetSpeed s1 = (if adaptiveCruiseActive s then regulate (frontReading (sensorReadings s)) 0.3
                         else targetSpeed s)"
      "carSpeed s1 = carSpeed s + (targetSpeed s1 - carSpeed s) * 0.1"
      "roadCurves s1 = roadCurves s" "car s1 \<noteq> None" "sensorsComplete s1"
    by blast
  have e: "s' = s1"
    using assms(2) True s1(1) by (simp add: animate_def)
  have t: "0.03 \<le> targetSpeed s1 \<and> targetSpeed s1 \<le> 0.3"
    using assms(1) regulate_range [of "frontReading (sensorReadings s)"]
    by (simp add: s1(2) invariant_def)
  have cs: "0.03 \<le> carSpeed s" "carSpeed s \<le> 0.3"
    using assms(1) by (simp_all add: invariant_def)
  have v: "0.03 \<le> carSpeed s1 \<and> carSpeed s1 \<le> 0.3"
    using cs t s1(3) by argo
  have "roadCurves s1 \<noteq> []"
    using assms(1) c by (auto simp: s1(4) invariant_def)
  with t v s1(6) show ?thesis
    unfolding e invariant_def by simp
qed

lemma reachable_invariant: "reachable hit s \<Longrightarrow> invariant s"
proof (induction rule: reachable.induct)
  case (reachable_initial rnd)
  show ?case
    by (simp add: invariant_def initialState_def sensorsComplete_def)
next
  case (reachable_step s e s')
  show ?case
  proof (cases e)
    case Init
    with reachable_step show ?thesis by (auto simp: invariant_initScene)
  next
    case Start
    with reachable_step show ?thesis
      by (auto simp: handleStartSimulation_def invariant_generateRoad split: if_splits)
  next
    case Stop
    with reachable_step show ?thesis
      by (auto simp: handleStopSimulation_def split: if_splits)
  next
    case ToggleLaneKeeping
    with reachable_step show ?thesis by auto
  next
    case ToggleAdaptiveCruise
    with reachable_step show ?thesis by auto
  next
    case (Frame delta)
    with reachable_step show ?thesis
      using invariant_animate [of s hit delta s'] by simp
  qed
qed

section \<open>The start command\<close>

text \<open>
  Claim C8, as stated, fails: in a running simulation six units down the road the start
  command changes nothing; the distance stays 6, the displayed speed stays 30 and
  \<open>Math.random()\<close> is not called, so no road is generated.
\<close>

theorem start_while_running_counterexample:
  "isSimulationRunning runningState
   \<and> handleStartSimulation runningState = runningState
   \<and> distance (handleStartSimulation runningState) = 6
   \<and> speedState (handleStartSimulation runningState) = 30
   \<and> randomCalls (handleStartSimulation runningState) = randomCalls runningState"
  by (simp add: handleStartSimulation_def runningState_def)

text \<open>
  Claim C8, amended.  The start command does nothing while the simulation is running.
  While it is not running, the command starts it with a freshly generated road of 20
  segments and fresh obstacles, the car back at the origin with heading 0, and the
  cumulative distance and the displayed distance and speed reset to 0; the speed and
  the target speed of the car keep their values.
\<close>

theorem start_regenerates_when_stopped:
  "(isSimulationRunning s \<longrightarrow> handleStartSimulation s = s)
   \<and> (\<not> isSimulationRunning s \<longrightarrow>
        isSimulationRunning (handleStartSimulation s)
        \<and> roadCurves (handleStartSimulation s) = roadCurves (generateRoad s)
        \<and> obstacles (handleStartSimulation s) = obstacles (generateRoad s)
        \<and> length (roadCurves (handleStartSimulation s)) = 20
        \<and> distance (handleStartSimulation s) = 0
        \<and> distanceState (handleStartSimulation s) = 0
        \<and> speedState (handleStartSimulation s) = 0
        \<and> carPosition (handleStartSimulation s) = \<lparr>x3 = 0, y3 = 0.5, z3 = 0\<rparr>
        \<and> carRotation (handleStartSimulation s) = 0
        \<and> carSpeed (handleStartSimulation s) = carSpeed s
        \<and> targetSpeed (handleStartSimulation s) = targetSpeed s)"
  by (simp add: handleStartSimulation_def generateRoad_fields)

theorem start_regenerates_when_stopped_witness:
  "isSimulationRunning runningState
   \<and> handleStartSimulation runningState = runningState
   \<and> \<not> isSimulationRunning (initScene (initialState exampleRandom))
   \<and> isSimulationRunning (handleStartSimulation (initScene (initialState exampleRandom)))
   \<and> length (roadCurves (handleStartSimulation (initScene (initialState exampleRandom)))) = 20
   \<and> distance (handleStartSimulation (initScene (initialState exampleRandom))) = 0
   \<and> speedState (handleStartSimulation (initScene (initialState exampleRandom))) = 0
   \<and> carSpeed (handleStartSimulation (initScene (initialState exampleRandom))) = 0.3"
proof -
  let ?i = "initScene (initialState exampleRandom)"
  have a: "isSimulationRunning runningState"
    by (simp add: runningState_def)
  have b: "\<not> isSimulationRunning ?i" "carSpeed ?i = 0.3"
    by (simp_all add: initScene_def generateRoad_fields) (simp_all add: setupCar_def initialState_def)
  show ?thesis
    using start_regenerates_when_stopped [of runningState]
      start_regenerates_when_stopped [of ?i] a b
    by (simp add: generateRoad_fields(1))
qed

section \<open>Ticks before initialisation\<close>

text \<open>
  Claim C9.  In a state the component can reach, a frame with no car or with an empty
  list of road segments returns the state unchanged.  Each guard does so on its own, in
  any state: the tick does nothing without a car or before \<open>initialized\<close> is set, lane
  keeping does nothing without a car or without segments, and the sensor update does
  nothing without a car or a front sensor; none of them fails there.
\<close>

theorem tick_before_initialisation_is_noop:
  "(reachable hit s \<and> (car s = None \<or> roadCurves s = []) \<longrightarrow>
      animate hit s delta = Inr s \<and> updateSimulation hit s delta = Inr s)
   \<and> (car s = None \<or> \<not> initialized s \<longrightarrow> updateSimulation hit s delta = Inr s)
   \<and> (car s = None \<or> roadCurves s = [] \<longrightarrow> updateLaneKeeping s = s)
   \<and> (car s = None \<or> front (sensors s) = None \<longrightarrow> updateSensors hit s = Inr s)"
proof -
  have "car s = None" if "reachable hit s" and "car s = None \<or> roadCurves s = []"
    using reachable_invariant [OF that(1)] that(2) by (auto simp: invariant_def)
  then show ?thesis
    by (auto simp: animate_def updateSimulation_def updateLaneKeeping_def updateSensors_def
          split: option.splits)
qed

theorem tick_before_initialisation_is_noop_witness:
  "reachable exampleHit (initialState exampleRandom)
   \<and> car (initialState exampleRandom) = None
   \<and> roadCurves (initialState exampleRandom) = []
   \<and> \<not> initialized (initialState exampleRandom)
   \<and> front (sensors (initialState exampleRandom)) = None
   \<and> animate exampleHit (initialState exampleRandom) 1 = Inr (initialState exampleRandom)
   \<and> updateSimulation exampleHit (initialState exampleRandom) 1 = Inr (initialState exampleRandom)
   \<and> updateLaneKeeping (initialState exampleRandom) = initialState exampleRandom
   \<and> updateSensors exampleHit (initialState exampleRandom) = Inr (initialState exampleRandom)"
proof -
  let ?s = "initialState exampleRandom"
  have r: "reachable exampleHit ?s"
    by (rule reachable_initial)
  have f: "car ?s = None" "roadCurves ?s = []" "\<not> initialized ?s" "front (sensors ?s) = None"
    by (simp_all add: initialState_def)
  show ?thesis
    using tick_before_initialisation_is_noop [of exampleHit ?s 1] r f by simp
qed

section \<open>The speed range\<close>

text \<open>
  Claim C10.  In every state the component can reach, the speed and the target speed of
  the car lie in the closed interval from 0.03 to 0.3: both start at 0.3, cruise control
  only sets targets in that interval, and the smoothing step keeps the speed between its
  old value and the target.
\<close>

theorem speeds_stay_in_range:
  "(reachable hit s \<longrightarrow>
      0.03 \<le> carSpeed s \<and> carSpeed s \<le> 0.3 \<and> 0.03 \<le> targetSpeed s \<and> targetSpeed s \<le> 0.3)
   \<and> carSpeed (initialState rnd) = 0.3 \<and> targetSpeed (initialState rnd) = 0.3
   \<and> 0.03 \<le> targetSpeed (updateAdaptiveCruiseControl s)
   \<and> targetSpeed (updateAdaptiveCruiseControl s) \<le> 0.3"
proof -
  have "targetSpeed (updateAdaptiveCruiseControl s) = regulate (frontReading (sensorReadings s)) 0.3"
    by (simp add: updateAdaptiveCruiseControl_def regulate_def Let_def split: jsnum.splits)
  then show ?thesis
    using reachable_invariant [of hit s] regulate_range [of "frontReading (sensorReadings s)"]
    by (auto simp: invariant_def initialState_def)
qed


theorem speeds_stay_in_range_witness:
  "\<exists>s'. step exampleHit (handleStartSimulation (initScene (initialState exampleRandom))) (Frame 1)
          = Inr s'
        \<and> reachable exampleHit s'
        \<and> 0.03 \<le> carSpeed s' \<and> carSpeed s' \<le> 0.3
        \<and> 0.03 \<le> targetSpeed s' \<and> targetSpeed s' \<le> 0.3"
proof -
  let ?i = "initScene (initialState exampleRandom)"
  let ?s = "handleStartSimulation ?i"
  have r0: "reachable exampleHit ?i"
    by (rule reachable_step [of _ "initialState exampleRandom" Init]) (simp_all add: reachable_initial)
  have r: "reachable exampleHit ?s"
    by (rule reachable_step [OF r0, of Start]) simp
  have i: "\<not> isSimulationRunning ?i" "car ?i \<noteq> None" "initialized ?i"
    by (simp_all add: initScene_def generateRoad_fields) (simp_all add: setupCar_def initialState_def)
  have f: "isSimulationRunning ?s" "car ?s \<noteq> None" "initialized ?s"
    using i by (simp_all add: handleStartSimulation_def generateRoad_fields)
  have "sensorsComplete ?s"
    using reachable_invariant [OF r] by (simp add: invariant_def)
  from updateSimulation_run [OF f(2,3) this, of exampleHit 1] obtain s' where
    s': "updateSimulation exampleHit ?s 1 = Inr s'"
    by blast
  have st: "step exampleHit ?s (Frame 1) = Inr s'"
    by (simp add: animate_def f(1) s')
  have r': "reachable exampleHit s'"
    by (rule reachable_step [OF r st])
  show ?thesis
    using speeds_stay_in_range [of exampleHit s'] r' st by blast
qed

end
